theory Spec2Isabelle
  imports Complex_Main "HOL-Library.Char_ord" "HOL-Library.List_Lexorder"
begin

section \<open>Data model\<close>

text \<open>
  The API server keeps its state in three PostgreSQL tables (\<open>videos\<close>,
  \<open>processing_jobs\<close>, \<open>video_tags\<close>) and one Redis list
  (\<open>video_processing_queue\<close>). A table is modelled as the list of its rows, a row as
  a record with the columns the routes read or write. UUIDs and serialised JSON values
  are strings; \<open>NOW()\<close> and \<open>new Date()\<close> are readings of a clock passed in by the
  caller of each route, and the result of \<open>uuidv4()\<close> is passed in as well.

  Every identifier a route receives (\<open>:id\<close> in the path, \<open>video_id\<close> in a body) is
  taken to be a well-formed UUID: the syntax check of \<open>schemas.uuidParam\<close> and of
  \<open>Joi.string().uuid()\<close> is outside the model. The database is taken to be reachable: a
  statement throws only where the model says so (an \<open>INSERT\<close> whose primary key is taken,
  an \<open>UPDATE\<close> that writes a value its column refuses or names a column the table
  lacks). Whether the Redis server accepts a command is a parameter \<open>redis_up\<close> of the
  routes that push onto the list.
\<close>

type_synonym uuid = string
type_synonym json = string
type_synonym timestamp = nat

datatype role = User | Admin

datatype privacy = Public | Private | Unlisted

datatype video_status = Pending | Processing | VCompleted | VFailed

datatype job_status = Queued | InProgress | Completed | Failed | Cancelled

datatype job_type = Encoding | Thumbnail | MetadataExtraction | QualityAnalysis | UploadToCdn

text \<open>\<open>req.user\<close>, as the authentication middleware leaves it on the request.\<close>

record user =
  user_id :: uuid
  user_role :: role

record video =
  vid :: uuid
  v_user_id :: uuid
  title :: string
  description :: "string option"
  file_path :: string
  file_size :: nat
  original_filename :: string
  v_privacy :: privacy
  v_status :: video_status
  v_created_at :: timestamp
  v_updated_at :: timestamp

record job =
  jid :: uuid
  j_video_id :: uuid
  j_type :: job_type
  j_status :: job_status
  priority :: int
  progress :: int
  settings :: "json option"
  error_message :: "string option"
  result_data :: "json option"
  j_created_at :: timestamp
  j_updated_at :: timestamp
  completed_at :: "timestamp option"

text \<open>
  The object pushed onto the Redis list. The job route sends \<open>settings\<close> and no
  \<open>file_path\<close>; the upload route sends \<open>file_path\<close> and no \<open>settings\<close>.
\<close>

record descriptor =
  d_job_id :: uuid
  d_video_id :: uuid
  d_job_type :: job_type
  d_priority :: int
  d_settings :: "json option"
  d_file_path :: "string option"
  d_created_at :: timestamp

record store =
  videos :: "video list"
  processing_jobs :: "job list"
  video_tags :: "(uuid \<times> string) list"
  video_processing_queue :: "descriptor list"

text \<open>The \<open>code\<close> field of the JSON error bodies the routes send.\<close>

datatype error =
    VALIDATION_ERROR
  | VIDEO_NOT_FOUND
  | NOT_AUTHORIZED
  | INVALID_VIDEO_STATUS
  | CREATE_JOB_ERROR
  | INVALID_STATUS
  | UPDATE_JOB_STATUS_ERROR
  | JOB_NOT_FOUND
  | CANNOT_CANCEL_JOB
  | GET_VIDEOS_ERROR
  | FILE_REQUIRED
  | UPLOAD_ERROR
  | NO_UPDATE_FIELDS
  | UPDATE_ERROR

section \<open>Queries shared by the routes\<close>

definition find_video :: "store \<Rightarrow> uuid \<Rightarrow> video option" where
  \<comment> \<open>\<open>SELECT ... FROM videos WHERE id = $1\<close>, \<open>rows[0]\<close>\<close>
  "find_video s i = find (\<lambda>v. vid v = i) (videos s)"

definition find_job :: "store \<Rightarrow> uuid \<Rightarrow> job option" where
  \<comment> \<open>\<open>SELECT * FROM processing_jobs WHERE id = $1\<close>, \<open>rows[0]\<close>\<close>
  "find_job s i = find (\<lambda>j. jid j = i) (processing_jobs s)"

definition jobs_of_video :: "store \<Rightarrow> uuid \<Rightarrow> job list" where
  \<comment> \<open>\<open>SELECT * FROM processing_jobs WHERE video_id = $1\<close>\<close>
  "jobs_of_video s i = filter (\<lambda>j. j_video_id j = i) (processing_jobs s)"

definition lPush :: "descriptor \<Rightarrow> store \<Rightarrow> store" where
  \<comment> \<open>\<open>redisClient.lPush('video_processing_queue', ...)\<close>, when the server accepts it,
      adds at the head of the list\<close>
  "lPush d s = s\<lparr>video_processing_queue := d # video_processing_queue s\<rparr>"

definition set_video_status :: "uuid \<Rightarrow> video_status \<Rightarrow> timestamp \<Rightarrow> store \<Rightarrow> store" where
  \<comment> \<open>\<open>UPDATE videos SET status = $1, updated_at = NOW() WHERE id = $2\<close>\<close>
  "set_video_status i st now s =
     s\<lparr>videos := map (\<lambda>v. if vid v = i then v\<lparr>v_status := st, v_updated_at := now\<rparr> else v)
                      (videos s)\<rparr>"

section \<open>Request validation (\<open>middleware/validation.js\<close>)\<close>


fun parse_privacy :: "string \<Rightarrow> privacy option" where
  "parse_privacy p =
     (if p = ''public'' then Some Public
      else if p = ''private'' then Some Private
      else if p = ''unlisted'' then Some Unlisted
      else None)"

fun parse_video_status :: "string \<Rightarrow> video_status option" where
  "parse_video_status t =
     (if t = ''pending'' then Some Pending
      else if t = ''processing'' then Some Processing
      else if t = ''completed'' then Some VCompleted
      else if t = ''failed'' then Some VFailed
      else None)"

fun video_status_name :: "video_status \<Rightarrow> string" where
  "video_status_name Pending = ''pending''"
| "video_status_name Processing = ''processing''"
| "video_status_name VCompleted = ''completed''"
| "video_status_name VFailed = ''failed''"



section \<open>Job routes (\<open>routes/jobs.js\<close>)\<close>

subsection \<open>\<open>POST /api/jobs\<close>\<close>

definition new_job :: "uuid \<Rightarrow> uuid \<Rightarrow> job_type \<Rightarrow> int \<Rightarrow> json option \<Rightarrow> timestamp \<Rightarrow> job" where
  \<comment> \<open>the row of \<open>INSERT INTO processing_jobs (id, video_id, job_type, status, priority,
      settings, created_at) VALUES ($1, $2, $3, 'queued', $4, $5, NOW())\<close>; the other
      columns take their defaults (\<open>progress\<close> 0, \<open>updated_at\<close> \<open>NOW()\<close>)\<close>
  "new_job i v t p st now =
     \<lparr>jid = i, j_video_id = v, j_type = t, j_status = Queued, priority = p, progress = 0,
      settings = st, error_message = None, result_data = None,
      j_created_at = now, j_updated_at = now, completed_at = None\<rparr>"

definition insert_job :: "job \<Rightarrow> store \<Rightarrow> store" where
  "insert_job j s = s\<lparr>processing_jobs := processing_jobs s @ [j]\<rparr>"


subsection \<open>\<open>PUT /api/jobs/:id/status\<close>\<close>

fun parse_job_status :: "string \<Rightarrow> job_status option" where
  \<comment> \<open>\<open>validStatuses.includes(status)\<close>\<close>
  "parse_job_status t =
     (if t = ''queued'' then Some Queued
      else if t = ''in_progress'' then Some InProgress
      else if t = ''completed'' then Some Completed
      else if t = ''failed'' then Some Failed
      else if t = ''cancelled'' then Some Cancelled
      else None)"

text \<open>
  The request body; it passes through no schema, so each key holds whatever the JSON
  carried. \<open>None\<close> is JavaScript's \<open>undefined\<close>. A status that is missing or is not a
  string is not among \<open>validStatuses\<close> either.

  \<open>progress\<close> reaches \<open>Math.min\<close> and \<open>Math.max\<close>, which turn it into a number first:
  \<open>Num q\<close> is a value that becomes the number \<open>q\<close> (a JSON number, \<open>null\<close> for 0, a
  numeric string), \<open>NotANumber\<close> one that becomes \<open>NaN\<close>. \<open>error_message\<close> is \<open>null\<close>
  (\<open>Some None\<close>) or a text; \<open>result_data\<close> is written as \<open>JSON.stringify\<close> returns it.
\<close>

datatype progress_value = Num rat | NotANumber

record status_request =
  b_status :: string
  b_progress :: "progress_value option"
  b_error_message :: "string option option"
  b_result_data :: "json option"

fun clamp_progress :: "progress_value \<Rightarrow> progress_value" where
  \<comment> \<open>\<open>Math.max(0, Math.min(100, progress))\<close>\<close>
  "clamp_progress (Num q) = Num (max 0 (min 100 q))"
| "clamp_progress NotANumber = NotANumber"

fun integer_column :: "progress_value \<Rightarrow> int option" where
  \<comment> \<open>what the column \<open>progress INTEGER\<close> takes: a whole number; for anything else the
      \<open>UPDATE\<close> throws\<close>
  "integer_column (Num q) = (if of_int \<lfloor>q\<rfloor> = q then Some \<lfloor>q\<rfloor> else None)"
| "integer_column NotANumber = None"

definition progress_param :: "progress_value option \<Rightarrow> int option option" where
  \<comment> \<open>\<open>None\<close>: the \<open>UPDATE\<close> throws; \<open>Some None\<close>: no \<open>progress = $n\<close> in the \<open>SET\<close> list;
      \<open>Some (Some p)\<close>: \<open>progress = p\<close>\<close>
  "progress_param x =
     (case x of None \<Rightarrow> Some None
      | Some pv \<Rightarrow> map_option Some (integer_column (clamp_progress pv)))"

definition update_job_row ::
    "job_status \<Rightarrow> int option \<Rightarrow> status_request \<Rightarrow> timestamp \<Rightarrow> job \<Rightarrow> job" where
  \<comment> \<open>the \<open>SET\<close> list built in \<open>updateFields\<close>, applied to one row\<close>
  "update_job_row st pr body now j =
     j\<lparr>j_status := st,
       j_updated_at := now,
       progress := (case pr of None \<Rightarrow> progress j | Some p \<Rightarrow> p),
       error_message := (case b_error_message body of None \<Rightarrow> error_message j
                         | Some m \<Rightarrow> m),
       result_data := (case b_result_data body of None \<Rightarrow> result_data j
                       | Some r \<Rightarrow> Some r),
       completed_at := (if st = Completed then Some now else completed_at j)\<rparr>"

text \<open>
  When the job \<open>UPDATE\<close> throws, the \<open>catch\<close> answers 500 \<open>UPDATE_JOB_STATUS_ERROR\<close>
  and the video \<open>UPDATE\<close> after it is not reached.
\<close>

definition put_job_status ::
    "user \<Rightarrow> uuid \<Rightarrow> status_request \<Rightarrow> timestamp \<Rightarrow> store \<Rightarrow> (error + job) \<times> store" where
  "put_job_status caller i body now s =
     (case parse_job_status (b_status body) of
        None \<Rightarrow> (Inl INVALID_STATUS, s)
      | Some st \<Rightarrow>
          (case find_job s i of
             None \<Rightarrow> (Inl JOB_NOT_FOUND, s)
           | Some j \<Rightarrow>
               (case progress_param (b_progress body) of
                  None \<Rightarrow> (Inl UPDATE_JOB_STATUS_ERROR, s)
                | Some pr \<Rightarrow>
                    (let s1 = s\<lparr>processing_jobs :=
                                   map (\<lambda>r. if jid r = i then update_job_row st pr body now r
                                             else r)
                                       (processing_jobs s)\<rparr>;
                         s2 = (if st = Completed \<and> j_type j = Encoding
                                 then set_video_status (j_video_id j) VCompleted now s1
                               else if st = Failed
                                 then set_video_status (j_video_id j) VFailed now s1
                               else s1)
                     in (Inr (update_job_row st pr body now j), s2)))))"

subsection \<open>\<open>POST /api/jobs/:id/cancel\<close>\<close>

definition job_owner :: "store \<Rightarrow> job \<Rightarrow> uuid option" where
  \<comment> \<open>\<open>v.user_id\<close> of the \<open>LEFT JOIN videos v ON pj.video_id = v.id\<close>: null without a video\<close>
  "job_owner s j = map_option v_user_id (find_video s (j_video_id j))"

definition post_job_cancel :: "user \<Rightarrow> uuid \<Rightarrow> timestamp \<Rightarrow> store \<Rightarrow> (error + job) \<times> store" where
  "post_job_cancel caller i now s =
     (case find_job s i of
        None \<Rightarrow> (Inl JOB_NOT_FOUND, s)
      | Some j \<Rightarrow>
          if job_owner s j \<noteq> Some (user_id caller) \<and> user_role caller \<noteq> Admin
            then (Inl NOT_AUTHORIZED, s)
          else if j_status j \<in> set [Completed, Failed, Cancelled]
            then (Inl CANNOT_CANCEL_JOB, s)
          else
            (Inr (j\<lparr>j_status := Cancelled, j_updated_at := now\<rparr>),
             s\<lparr>processing_jobs :=
                  map (\<lambda>r. if jid r = i then r\<lparr>j_status := Cancelled, j_updated_at := now\<rparr> else r)
                      (processing_jobs s)\<rparr>))"

section \<open>Video routes (\<open>routes/videos.js\<close>)\<close>

text \<open>
  The router that \<open>server.js\<close> mounts at \<open>/api/videos\<close>; in the source tree its text
  follows the schemas in \<open>middleware/validation.js\<close>.
\<close>

subsection \<open>\<open>GET /api/videos\<close>\<close>

datatype sort_field = CreatedAt | UpdatedAt | Title | Status

datatype sort_order = Asc | Desc

text \<open>The query string as received, and as \<open>schemas.listQuery\<close> returns it.\<close>

record list_query =
  q_page :: "int option"
  q_limit :: "int option"
  q_sort :: "string option"
  q_order :: "string option"
  q_status :: "string option"
  q_search :: "string option"

record valid_list_query =
  lq_page :: int
  lq_limit :: int
  lq_sort :: sort_field
  lq_order :: sort_order
  lq_status :: "video_status option"
  lq_search :: "string option"

definition check_page :: "int option \<Rightarrow> int option" where
  \<comment> \<open>\<open>Joi.number().integer().min(1).default(1)\<close>\<close>
  "check_page p = (case p of None \<Rightarrow> Some 1 | Some n \<Rightarrow> if 1 \<le> n then Some n else None)"

definition check_limit :: "int option \<Rightarrow> int option" where
  \<comment> \<open>\<open>Joi.number().integer().min(1).max(100).default(20)\<close>\<close>
  "check_limit l =
     (case l of None \<Rightarrow> Some 20 | Some n \<Rightarrow> if 1 \<le> n \<and> n \<le> 100 then Some n else None)"

definition check_sort :: "string option \<Rightarrow> sort_field option" where
  "check_sort x =
     (case x of
        None \<Rightarrow> Some CreatedAt
      | Some t \<Rightarrow>
          if t = ''created_at'' then Some CreatedAt
          else if t = ''updated_at'' then Some UpdatedAt
          else if t = ''title'' then Some Title
          else if t = ''status'' then Some Status
          else None)"

definition check_order :: "string option \<Rightarrow> sort_order option" where
  "check_order x =
     (case x of
        None \<Rightarrow> Some Desc
      | Some t \<Rightarrow> if t = ''asc'' then Some Asc else if t = ''desc'' then Some Desc else None)"

definition check_status :: "string option \<Rightarrow> video_status option option" where
  "check_status x =
     (case x of None \<Rightarrow> Some None | Some t \<Rightarrow> map_option Some (parse_video_status t))"

definition check_search :: "string option \<Rightarrow> string option option" where
  \<comment> \<open>\<open>Joi.string().max(100).optional()\<close>; a Joi string is not empty\<close>
  "check_search x =
     (case x of
        None \<Rightarrow> Some None
      | Some t \<Rightarrow> if 1 \<le> length t \<and> length t \<le> 100 then Some (Some t) else None)"

definition validate_listQuery :: "list_query \<Rightarrow> error + valid_list_query" where
  "validate_listQuery q =
     (case Option.bind (check_page (q_page q)) (\<lambda>p.
           Option.bind (check_limit (q_limit q)) (\<lambda>l.
           Option.bind (check_sort (q_sort q)) (\<lambda>so.
           Option.bind (check_order (q_order q)) (\<lambda>ord.
           Option.bind (check_status (q_status q)) (\<lambda>st.
           Option.bind (check_search (q_search q)) (\<lambda>se.
             Some \<lparr>lq_page = p, lq_limit = l, lq_sort = so, lq_order = ord,
                   lq_status = st, lq_search = se\<rparr>)))))) of
        None \<Rightarrow> Inl VALIDATION_ERROR
      | Some vq \<Rightarrow> Inr vq)"

definition where_clause :: "user option \<Rightarrow> valid_list_query \<Rightarrow> video \<Rightarrow> bool" where
  \<comment> \<open>\<open>1=1 AND privacy = 'public'\<close> without \<open>req.user\<close>,
      \<open>1=1 AND (privacy = 'public' OR user_id = $1)\<close> with it, then \<open>AND status = $n\<close>\<close>
  "where_clause caller vq v \<longleftrightarrow>
     (case caller of
        None \<Rightarrow> v_privacy v = Public
      | Some u \<Rightarrow> v_privacy v = Public \<or> v_user_id v = user_id u)
     \<and> (case lq_status vq of None \<Rightarrow> True | Some st \<Rightarrow> v_status v = st)"

definition order_by :: "sort_field \<Rightarrow> sort_order \<Rightarrow> video list \<Rightarrow> video list" where
  \<comment> \<open>\<open>ORDER BY v.${sort} ${order.toUpperCase()}\<close>; text columns compared character by
      character\<close>
  "order_by f ord rows =
     (let asc = (case f of
                   CreatedAt \<Rightarrow> sort_key v_created_at rows
                 | UpdatedAt \<Rightarrow> sort_key v_updated_at rows
                 | Title \<Rightarrow> sort_key title rows
                 | Status \<Rightarrow> sort_key (\<lambda>v. video_status_name (v_status v)) rows)
      in case ord of Asc \<Rightarrow> asc | Desc \<Rightarrow> rev asc)"

record video_page =
  pg_videos :: "video list"
  current_page :: int
  total_pages :: int
  total_count :: int
  per_page :: int
  has_next :: bool
  has_prev :: bool

text \<open>
  With a \<open>search\<close> parameter the handler numbers the two \<open>ILIKE\<close> placeholders and
  then increments \<open>paramCount\<close> once more, so the second query carries \<open>LIMIT\<close> and
  \<open>OFFSET\<close> placeholders two past its last parameter: the database rejects it and the
  handler answers 500 \<open>GET_VIDEOS_ERROR\<close>.
\<close>

definition get_videos :: "user option \<Rightarrow> list_query \<Rightarrow> store \<Rightarrow> error + video_page" where
  "get_videos caller q s =
     (case validate_listQuery q of
        Inl e \<Rightarrow> Inl e
      | Inr vq \<Rightarrow>
          if lq_search vq \<noteq> None then Inl GET_VIDEOS_ERROR
          else
            (let offset = (lq_page vq - 1) * lq_limit vq;
                 rows = filter (where_clause caller vq) (videos s);
                 totalCount = int (length rows);
                 totalPages = - ((- totalCount) div lq_limit vq)
             in Inr \<lparr>pg_videos = take (nat (lq_limit vq))
                                     (drop (nat offset) (order_by (lq_sort vq) (lq_order vq) rows)),
                      current_page = lq_page vq,
                      total_pages = totalPages,
                      total_count = totalCount,
                      per_page = lq_limit vq,
                      has_next = (lq_page vq < totalPages),
                      has_prev = (lq_page vq > 1)\<rparr>))"

subsection \<open>\<open>POST /api/videos\<close>\<close>

text \<open>\<open>req.file\<close> as multer leaves it, and the form fields checked by \<open>schemas.videoUpload\<close>.\<close>

record upload_file =
  f_path :: string
  f_size :: nat
  f_originalname :: string

record upload_request =
  u_title :: string
  u_description :: "string option"
  u_tags :: "string list option"
  u_privacy :: "string option"

definition valid_tags :: "string list option \<Rightarrow> bool" where
  \<comment> \<open>\<open>Joi.array().items(Joi.string().max(50)).max(10).optional()\<close>\<close>
  "valid_tags ts \<longleftrightarrow>
     (case ts of None \<Rightarrow> True
      | Some l \<Rightarrow> length l \<le> 10 \<and> list_all (\<lambda>t. 1 \<le> length t \<and> length t \<le> 50) l)"

definition valid_description :: "string option \<Rightarrow> bool" where
  \<comment> \<open>\<open>Joi.string().max(1000).optional()\<close>\<close>
  "valid_description d \<longleftrightarrow>
     (case d of None \<Rightarrow> True | Some t \<Rightarrow> 1 \<le> length t \<and> length t \<le> 1000)"

definition valid_title :: "string \<Rightarrow> bool" where
  \<comment> \<open>\<open>Joi.string().min(1).max(255)\<close>\<close>
  "valid_title t \<longleftrightarrow> 1 \<le> length t \<and> length t \<le> 255"

definition validate_videoUpload :: "upload_request \<Rightarrow> error + privacy" where
  \<comment> \<open>returns the privacy with its default \<open>'public'\<close>; the other fields pass unchanged\<close>
  "validate_videoUpload r =
     (if \<not> valid_title (u_title r) \<or> \<not> valid_description (u_description r)
         \<or> \<not> valid_tags (u_tags r)
        then Inl VALIDATION_ERROR
      else
        (case u_privacy r of
           None \<Rightarrow> Inr Public
         | Some p \<Rightarrow> (case parse_privacy p of None \<Rightarrow> Inl VALIDATION_ERROR | Some pv \<Rightarrow> Inr pv)))"

definition insert_tags :: "uuid \<Rightarrow> string list option \<Rightarrow> store \<Rightarrow> store" where
  \<comment> \<open>\<open>if (tags && tags.length > 0) INSERT INTO video_tags (video_id, tag) VALUES ...\<close>\<close>
  "insert_tags i ts s =
     (case ts of
        None \<Rightarrow> s
      | Some l \<Rightarrow> if l = [] then s else s\<lparr>video_tags := video_tags s @ map (Pair i) l\<rparr>)"

definition new_video ::
    "user \<Rightarrow> upload_file \<Rightarrow> upload_request \<Rightarrow> privacy \<Rightarrow> uuid \<Rightarrow> timestamp \<Rightarrow> video" where
  \<comment> \<open>the row of \<open>INSERT INTO videos (id, user_id, title, description, file_path, file_size,
      original_filename, privacy, status, created_at, updated_at) VALUES ($1, ..., $8,
      'pending', NOW(), NOW())\<close>\<close>
  "new_video caller f body priv videoId now =
     \<lparr>vid = videoId, v_user_id = user_id caller, title = u_title body,
      description = u_description body, file_path = f_path f,
      file_size = f_size f, original_filename = f_originalname f,
      v_privacy = priv, v_status = Pending,
      v_created_at = now, v_updated_at = now\<rparr>"

definition insert_video :: "video \<Rightarrow> store \<Rightarrow> store" where
  "insert_video v s = s\<lparr>videos := videos s @ [v]\<rparr>"

text \<open>
  The handler inserts the video row, its tags, the initial job row and then pushes the
  descriptor, with no transaction around them: a statement or a push that throws leaves
  the earlier ones in place and the \<open>catch\<close> answers 500 \<open>UPLOAD_ERROR\<close>. The answer of
  a successful upload carries the video row and \<open>processing_job_id\<close>.
\<close>

definition post_video ::
    "user \<Rightarrow> upload_file option \<Rightarrow> upload_request \<Rightarrow> uuid \<Rightarrow> uuid \<Rightarrow> timestamp \<Rightarrow> timestamp
       \<Rightarrow> bool \<Rightarrow> store \<Rightarrow> (error + video \<times> uuid) \<times> store" where
  "post_video caller file body videoId jobId now clock redis_up s =
     (case validate_videoUpload body of
        Inl e \<Rightarrow> (Inl e, s)
      | Inr priv \<Rightarrow>
          (case file of
             None \<Rightarrow> (Inl FILE_REQUIRED, s)
           | Some f \<Rightarrow>
               if find_video s videoId \<noteq> None then (Inl UPLOAD_ERROR, s)
               else
                 (let v = new_video caller f body priv videoId now;
                      s2 = insert_tags videoId (u_tags body) (insert_video v s)
                  in if find_job s2 jobId \<noteq> None then (Inl UPLOAD_ERROR, s2)
                     else
                       (let j = new_job jobId videoId MetadataExtraction 5 None now;
                            d = \<lparr>d_job_id = jobId, d_video_id = videoId,
                                 d_job_type = MetadataExtraction, d_priority = 5,
                                 d_settings = None, d_file_path = Some (f_path f),
                                 d_created_at = clock\<rparr>
                        in if \<not> redis_up then (Inl UPLOAD_ERROR, insert_job j s2)
                           else (Inr (v, jobId), lPush d (insert_job j s2))))))"

subsection \<open>\<open>PUT /api/videos/:id\<close>\<close>

text \<open>
  The body as \<open>schemas.videoUpdate\<close> checks and returns it; unknown keys are stripped by
  the validation middleware. The handler writes one \<open>key = $n\<close> for every key of the
  body into \<open>UPDATE videos\<close>. \<open>title\<close>, \<open>description\<close>, \<open>privacy\<close> and \<open>status\<close> are
  columns of \<open>videos\<close>; \<open>tags\<close> is not (tags are rows of \<open>video_tags\<close>), so with a
  \<open>tags\<close> key the statement throws and the \<open>catch\<close> answers 500 \<open>UPDATE_ERROR\<close>.
\<close>

record video_patch =
  p_title :: "string option"
  p_description :: "string option"
  p_tags :: "string list option"
  p_privacy :: "string option"
  p_status :: "string option"

record valid_video_patch =
  vp_title :: "string option"
  vp_description :: "string option"
  vp_tags :: "string list option"
  vp_privacy :: "privacy option"
  vp_status :: "video_status option"

definition check_privacy :: "string option \<Rightarrow> privacy option option" where
  "check_privacy x = (case x of None \<Rightarrow> Some None | Some t \<Rightarrow> map_option Some (parse_privacy t))"

definition validate_videoUpdate :: "video_patch \<Rightarrow> error + valid_video_patch" where
  "validate_videoUpdate p =
     (if (case p_title p of None \<Rightarrow> False | Some t \<Rightarrow> \<not> valid_title t)
         \<or> \<not> valid_description (p_description p)
         \<or> \<not> valid_tags (p_tags p)
        then Inl VALIDATION_ERROR
      else
        (case Option.bind (check_privacy (p_privacy p)) (\<lambda>pv.
              Option.bind (check_status (p_status p)) (\<lambda>st.
                Some \<lparr>vp_title = p_title p, vp_description = p_description p,
                      vp_tags = p_tags p, vp_privacy = pv, vp_status = st\<rparr>)) of
           None \<Rightarrow> Inl VALIDATION_ERROR
         | Some vp \<Rightarrow> Inr vp))"

definition apply_patch :: "valid_video_patch \<Rightarrow> timestamp \<Rightarrow> video \<Rightarrow> video" where
  \<comment> \<open>\<open>title = $n\<close>, \<open>description = $n\<close>, \<open>privacy = $n\<close>, \<open>status = $n\<close> for the keys of
      the body, then \<open>updated_at = $n\<close>\<close>
  "apply_patch vp clock v =
     v\<lparr>title := (case vp_title vp of None \<Rightarrow> title v | Some t \<Rightarrow> t),
       description := (case vp_description vp of None \<Rightarrow> description v | Some d \<Rightarrow> Some d),
       v_privacy := (case vp_privacy vp of None \<Rightarrow> v_privacy v | Some pv \<Rightarrow> pv),
       v_status := (case vp_status vp of None \<Rightarrow> v_status v | Some st \<Rightarrow> st),
       v_updated_at := clock\<rparr>"

definition put_video ::
    "user \<Rightarrow> uuid \<Rightarrow> video_patch \<Rightarrow> timestamp \<Rightarrow> store \<Rightarrow> (error + video) \<times> store" where
  "put_video caller i body clock s =
     (case validate_videoUpdate body of
        Inl e \<Rightarrow> (Inl e, s)
      | Inr vp \<Rightarrow>
          (case find_video s i of
             None \<Rightarrow> (Inl VIDEO_NOT_FOUND, s)
           | Some v \<Rightarrow>
               if v_user_id v \<noteq> user_id caller \<and> user_role caller \<noteq> Admin
                 then (Inl NOT_AUTHORIZED, s)
               else if vp_title vp = None \<and> vp_description vp = None \<and> vp_tags vp = None
                       \<and> vp_privacy vp = None \<and> vp_status vp = None
                 then (Inl NO_UPDATE_FIELDS, s)
               else if vp_tags vp \<noteq> None then (Inl UPDATE_ERROR, s)
               else
                 (Inr (apply_patch vp clock v),
                  s\<lparr>videos := map (\<lambda>r. if vid r = i then apply_patch vp clock r else r)
                                   (videos s)\<rparr>)))"

subsection \<open>\<open>DELETE /api/videos/:id\<close>\<close>

definition delete_video_tags :: "uuid \<Rightarrow> store \<Rightarrow> store" where
  \<comment> \<open>\<open>DELETE FROM video_tags WHERE video_id = $1\<close>\<close>
  "delete_video_tags i s = s\<lparr>video_tags := filter (\<lambda>r. fst r \<noteq> i) (video_tags s)\<rparr>"

definition delete_processing_jobs :: "uuid \<Rightarrow> store \<Rightarrow> store" where
  \<comment> \<open>\<open>DELETE FROM processing_jobs WHERE video_id = $1\<close>\<close>
  "delete_processing_jobs i s =
     s\<lparr>processing_jobs := filter (\<lambda>j. j_video_id j \<noteq> i) (processing_jobs s)\<rparr>"

definition delete_video_row :: "uuid \<Rightarrow> store \<Rightarrow> store" where
  \<comment> \<open>\<open>DELETE FROM videos WHERE id = $1\<close>\<close>
  "delete_video_row i s = s\<lparr>videos := filter (\<lambda>v. vid v \<noteq> i) (videos s)\<rparr>"

definition delete_steps :: "uuid \<Rightarrow> store \<Rightarrow> store list" where
  \<comment> \<open>the store after each of the three statements between \<open>BEGIN\<close> and \<open>COMMIT\<close>\<close>
  "delete_steps i s =
     (let s1 = delete_video_tags i s;
          s2 = delete_processing_jobs i s1;
          s3 = delete_video_row i s2
      in [s1, s2, s3])"

definition delete_video :: "user \<Rightarrow> uuid \<Rightarrow> store \<Rightarrow> (error + unit) \<times> store" where
  "delete_video caller i s =
     (case find_video s i of
        None \<Rightarrow> (Inl VIDEO_NOT_FOUND, s)
      | Some v \<Rightarrow>
          if v_user_id v \<noteq> user_id caller \<and> user_role caller \<noteq> Admin
            then (Inl NOT_AUTHORIZED, s)
          else (Inr (), last (delete_steps i s)))"

definition job_status_in :: "uuid \<Rightarrow> store \<Rightarrow> job_status option" where
  \<comment> \<open>the status column of a job row, read from a store\<close>
  "job_status_in i s = map_option j_status (find_job s i)"

section \<open>A small store to run the routes on\<close>

text \<open>Identifiers as \<open>uuidv4()\<close> writes them: two users, an admin, videos and jobs.\<close>

abbreviation U1 :: uuid where
  "U1 \<equiv> ''10000000-0000-4000-8000-000000000001''"

abbreviation U2 :: uuid where
  "U2 \<equiv> ''20000000-0000-4000-8000-000000000002''"

abbreviation A1 :: uuid where
  "A1 \<equiv> ''30000000-0000-4000-8000-000000000003''"

abbreviation V1 :: uuid where
  "V1 \<equiv> ''40000000-0000-4000-8000-000000000011''"

abbreviation V2 :: uuid where
  "V2 \<equiv> ''50000000-0000-4000-8000-000000000012''"

abbreviation V3 :: uuid where
  "V3 \<equiv> ''60000000-0000-4000-8000-000000000013''"

abbreviation V9 :: uuid where
  "V9 \<equiv> ''70000000-0000-4000-8000-000000000019''"

abbreviation J1 :: uuid where
  "J1 \<equiv> ''80000000-0000-4000-8000-000000000021''"

abbreviation J2 :: uuid where
  "J2 \<equiv> ''90000000-0000-4000-8000-000000000022''"

abbreviation J3 :: uuid where
  "J3 \<equiv> ''a0000000-0000-4000-8000-000000000023''"

abbreviation J9 :: uuid where
  "J9 \<equiv> ''b0000000-0000-4000-8000-000000000029''"

definition alice :: user where
  "alice = \<lparr>user_id = U1, user_role = User\<rparr>"

definition bob :: user where
  "bob = \<lparr>user_id = U2, user_role = User\<rparr>"

definition root :: user where
  "root = \<lparr>user_id = A1, user_role = Admin\<rparr>"

definition video1 :: video where
  \<comment> \<open>a public video of alice, not yet processed\<close>
  "video1 = \<lparr>vid = V1, v_user_id = U1, title = ''Holiday'', description = None,
             file_path = ''uploads/videos/a.mp4'', file_size = 1000,
             original_filename = ''a.mp4'', v_privacy = Public, v_status = Pending,
             v_created_at = 1, v_updated_at = 1\<rparr>"

definition video2 :: video where
  \<comment> \<open>a private video of alice\<close>
  "video2 = \<lparr>vid = V2, v_user_id = U1, title = ''Diary'', description = None,
             file_path = ''uploads/videos/b.mp4'', file_size = 2000,
             original_filename = ''b.mp4'', v_privacy = Private, v_status = Pending,
             v_created_at = 2, v_updated_at = 2\<rparr>"

definition video3 :: video where
  \<comment> \<open>a public video of bob whose processing failed\<close>
  "video3 = \<lparr>vid = V3, v_user_id = U2, title = ''Broken'', description = None,
             file_path = ''uploads/videos/c.mp4'', file_size = 3000,
             original_filename = ''c.mp4'', v_privacy = Public, v_status = VFailed,
             v_created_at = 3, v_updated_at = 3\<rparr>"

definition job1 :: job where
  "job1 = new_job J1 V1 Encoding 5 None 4"

definition job2 :: job where
  "job2 = (new_job J2 V1 Thumbnail 5 None 5)\<lparr>j_status := InProgress, progress := 40\<rparr>"

definition job3 :: job where
  "job3 = (new_job J3 V2 Encoding 5 None 6)
            \<lparr>j_status := Completed, progress := 100, completed_at := Some 7\<rparr>"

definition store0 :: store where
  "store0 = \<lparr>videos = [video1, video2, video3],
             processing_jobs = [job1, job2, job3],
             video_tags = [(V1, ''beach'')],
             video_processing_queue = []\<rparr>"

definition status_only :: "string \<Rightarrow> status_request" where
  \<comment> \<open>a body with the \<open>status\<close> key alone\<close>
  "status_only t =
     \<lparr>b_status = t, b_progress = None, b_error_message = None, b_result_data = None\<rparr>"

definition no_query :: list_query where
  \<comment> \<open>a listing request without query parameters\<close>
  "no_query = \<lparr>q_page = None, q_limit = None, q_sort = None, q_order = None,
               q_status = None, q_search = None\<rparr>"

definition progress_report :: "progress_value \<Rightarrow> status_request" where
  \<comment> \<open>a worker's progress report\<close>
  "progress_report pv =
     \<lparr>b_status = ''in_progress'', b_progress = Some pv, b_error_message = None,
      b_result_data = None\<rparr>"

definition progress_request :: "int \<Rightarrow> status_request" where
  \<comment> \<open>a progress report with a whole number\<close>
  "progress_request p = progress_report (Num (of_int p))"


definition status_patch :: "string \<Rightarrow> video_patch" where
  \<comment> \<open>a metadata update with the \<open>status\<close> key alone\<close>
  "status_patch t =
     \<lparr>p_title = None, p_description = None, p_tags = None, p_privacy = None,
      p_status = Some t\<rparr>"

definition status_tags_patch :: "string \<Rightarrow> string list \<Rightarrow> video_patch" where
  \<comment> \<open>a metadata update with the keys \<open>status\<close> and \<open>tags\<close>\<close>
  "status_tags_patch t ts =
     \<lparr>p_title = None, p_description = None, p_tags = Some ts, p_privacy = None,
      p_status = Some t\<rparr>"

definition title_patch :: "string \<Rightarrow> video_patch" where
  \<comment> \<open>a metadata update with the \<open>title\<close> key alone\<close>
  "title_patch t =
     \<lparr>p_title = Some t, p_description = None, p_tags = None, p_privacy = None,
      p_status = None\<rparr>"

definition has_video :: "uuid \<Rightarrow> store \<Rightarrow> bool" where
  \<comment> \<open>whether the video row is in a store\<close>
  "has_video i s \<longleftrightarrow> find_video s i \<noteq> None"

definition file1 :: upload_file where
  "file1 = \<lparr>f_path = ''uploads/videos/d.mp4'', f_size = 4000, f_originalname = ''d.mp4''\<rparr>"

definition upload1 :: upload_request where
  "upload1 = \<lparr>u_title = ''Picnic'', u_description = None, u_tags = Some [''park''],
              u_privacy = Some ''private''\<rparr>"

section \<open>Lemmas about the tables\<close>

lemmas example_defs = alice_def bob_def root_def video1_def video2_def video3_def
  job1_def job2_def job3_def store0_def status_only_def no_query_def new_job_def

lemma find_map_same:
  assumes "\<And>x. key (g x) = key x"
  shows "find (\<lambda>x. key x = i) (map (\<lambda>r. if key r = i then g r else r) xs)
         = map_option g (find (\<lambda>x. key x = i) xs)"
  using assms by (induction xs) auto

lemma find_map_other:
  assumes "\<And>x. key (g x) = key x" and "i' \<noteq> i"
  shows "find (\<lambda>x. key x = i') (map (\<lambda>r. if key r = i then g r else r) xs)
         = find (\<lambda>x. key x = i') xs"
  using assms by (induction xs) auto

lemma find_append_fresh:
  "find P xs = None \<Longrightarrow> find P (xs @ [x]) = (if P x then Some x else None)"
  by (induction xs) (auto split: if_splits)

lemma jid_update_job_row [simp]: "jid (update_job_row st pr body now j) = jid j"
  by (simp add: update_job_row_def)

lemma j_status_update_job_row [simp]: "j_status (update_job_row st pr body now j) = st"
  by (simp add: update_job_row_def)

lemma processing_jobs_set_video_status [simp]:
  "processing_jobs (set_video_status v st now s) = processing_jobs s"
  by (simp add: set_video_status_def)


lemma find_job_lPush [simp]: "find_job (lPush d s) i = find_job s i"
  by (simp add: find_job_def lPush_def)

section \<open>The status update\<close>

lemma stored_progress_range:
  assumes "integer_column (clamp_progress pv) = Some p"
  shows "0 \<le> p \<and> p \<le> 100"
proof (cases pv)
  case (Num q)
  with assms have p: "p = \<lfloor>max 0 (min 100 q)\<rfloor>"
    by (simp split: if_splits)
  have "(0::rat) \<le> max 0 (min 100 q)" and "max 0 (min 100 q) \<le> (100::rat)"
    by simp_all
  then have "0 \<le> \<lfloor>max 0 (min 100 q)\<rfloor>" and "\<lfloor>max 0 (min 100 q)\<rfloor> \<le> 100"
    by (simp_all add: floor_le_iff le_floor_iff)
  with p show ?thesis by simp
next
  case NotANumber
  with assms show ?thesis by simp
qed

lemma stored_progress_Num:
  assumes "integer_column (clamp_progress (Num q)) = Some p"
  shows "(q < 0 \<longrightarrow> p = 0) \<and> (100 < q \<longrightarrow> p = 100)
         \<and> (0 \<le> q \<and> q \<le> 100 \<longrightarrow> of_int p = q)"
  using assms by (auto split: if_splits simp: max_def min_def)

lemma stored_progress_of_int:
  "integer_column (clamp_progress (Num (of_int n))) = Some (max 0 (min 100 n))"
proof -
  have "max 0 (min 100 (of_int n :: rat)) = of_int (max 0 (min 100 n))"
    by (simp add: max_def min_def)
  then show ?thesis by simp
qed

lemma put_job_status_success:
  assumes "parse_job_status (b_status body) = Some st" and "find_job s i = Some j"
    and "progress_param (b_progress body) = Some pr"
  shows "fst (put_job_status caller i body now s) = Inr (update_job_row st pr body now j)"
    and "find_job (snd (put_job_status caller i body now s)) i
           = Some (update_job_row st pr body now j)"
proof -
  show "fst (put_job_status caller i body now s) = Inr (update_job_row st pr body now j)"
    using assms by (simp add: put_job_status_def Let_def)
  have "find (\<lambda>r. jid r = i)
          (map (\<lambda>r. if jid r = i then update_job_row st pr body now r else r)
               (processing_jobs s))
        = Some (update_job_row st pr body now j)"
    using assms(2) by (simp add: find_map_same find_job_def)
  then show "find_job (snd (put_job_status caller i body now s)) i
               = Some (update_job_row st pr body now j)"
    using assms by (simp add: put_job_status_def Let_def find_job_def)
qed

lemma put_job_status_failure:
  assumes "fst (put_job_status caller i body now s) = Inl e"
  shows "snd (put_job_status caller i body now s) = s"
  using assms by (auto simp: put_job_status_def Let_def split: option.splits)

lemma put_job_status_Inr:
  assumes "put_job_status caller i body now s = (Inr j', s')"
  obtains st j pr where "parse_job_status (b_status body) = Some st" "find_job s i = Some j"
    "progress_param (b_progress body) = Some pr"
    "j' = update_job_row st pr body now j"
  using assms by (auto simp: put_job_status_def Let_def split: option.splits)

text \<open>
  C1, as the specification states it: a status change that is not an edge of
  queued \<rightarrow> in_progress | cancelled, in_progress \<rightarrow> completed | failed | cancelled fails
  and leaves the job row unchanged, so completed \<rightarrow> queued is never observable.
  The handler has no such check. On the store \<open>store0\<close> the job \<open>J3\<close> is completed; a
  request for the status \<open>queued\<close> is answered with the updated row, and the stored
  status is \<open>queued\<close> afterwards.
\<close>

theorem put_job_status_completed_to_queued:
  "job_status_in J3 store0 = Some Completed
   \<and> fst (put_job_status root J3 (status_only ''queued'') 9 store0)
       = Inr (job3\<lparr>j_status := Queued, j_updated_at := 9\<rparr>)
   \<and> job_status_in J3 (snd (put_job_status root J3 (status_only ''queued'') 9 store0))
       = Some Queued"
  by (simp add: job_status_in_def find_job_def put_job_status_def progress_param_def
      update_job_row_def example_defs)

text \<open>
  C1, amended: the status update checks no transition. Whenever it succeeds, the
  requested status is one of the five names, the answer is the updated row and the
  stored status is the requested one, whatever the job's status was before; and it does
  succeed for every existing job and each of the five names when the body carries,
  besides the status, at most a progress that clamps to a whole number. A status that is
  not one of the five names is answered \<open>INVALID_STATUS\<close>, a job id that resolves to no
  row \<open>JOB_NOT_FOUND\<close>, a progress that does not clamp to a whole number
  \<open>UPDATE_JOB_STATUS_ERROR\<close>; a failed update leaves the store as it was.
\<close>

theorem put_job_status_any_transition:
  "(\<forall>st j pr. parse_job_status (b_status body) = Some st \<and> find_job s i = Some j
        \<and> progress_param (b_progress body) = Some pr
        \<and> b_error_message body = None \<and> b_result_data body = None \<longrightarrow>
      (\<exists>j'. fst (put_job_status caller i body now s) = Inr j' \<and> j_status j' = st
            \<and> find_job (snd (put_job_status caller i body now s)) i = Some j'))
   \<and> (\<forall>j' s'. put_job_status caller i body now s = (Inr j', s') \<longrightarrow>
         (\<exists>st. parse_job_status (b_status body) = Some st \<and> j_status j' = st
            \<and> find_job s' i = Some j'))
   \<and> (parse_job_status (b_status body) = None \<longrightarrow>
         put_job_status caller i body now s = (Inl INVALID_STATUS, s))
   \<and> (\<forall>st. parse_job_status (b_status body) = Some st \<and> find_job s i = None \<longrightarrow>
         put_job_status caller i body now s = (Inl JOB_NOT_FOUND, s))
   \<and> (\<forall>st j. parse_job_status (b_status body) = Some st \<and> find_job s i = Some j
         \<and> progress_param (b_progress body) = None \<longrightarrow>
         put_job_status caller i body now s = (Inl UPDATE_JOB_STATUS_ERROR, s))
   \<and> (\<forall>e. fst (put_job_status caller i body now s) = Inl e \<longrightarrow>
         snd (put_job_status caller i body now s) = s)"
proof (intro conjI allI impI)
  fix st j pr
  assume h: "parse_job_status (b_status body) = Some st \<and> find_job s i = Some j
        \<and> progress_param (b_progress body) = Some pr
        \<and> b_error_message body = None \<and> b_result_data body = None"
  show "\<exists>j'. fst (put_job_status caller i body now s) = Inr j' \<and> j_status j' = st
            \<and> find_job (snd (put_job_status caller i body now s)) i = Some j'"
    using put_job_status_success [of body st s i j pr caller now] h by simp
next
  fix j' s'
  assume r: "put_job_status caller i body now s = (Inr j', s')"
  then obtain st j pr where h: "parse_job_status (b_status body) = Some st"
    "find_job s i = Some j" "progress_param (b_progress body) = Some pr"
    "j' = update_job_row st pr body now j"
    by (rule put_job_status_Inr)
  have "find_job s' i = Some j'"
    using put_job_status_success(2) [OF h(1,2,3), of caller now] r h(4) by simp
  then show "\<exists>st. parse_job_status (b_status body) = Some st \<and> j_status j' = st
            \<and> find_job s' i = Some j'"
    using h by simp
next
  assume "parse_job_status (b_status body) = None"
  then show "put_job_status caller i body now s = (Inl INVALID_STATUS, s)"
    by (simp add: put_job_status_def)
next
  fix st
  assume "parse_job_status (b_status body) = Some st \<and> find_job s i = None"
  then show "put_job_status caller i body now s = (Inl JOB_NOT_FOUND, s)"
    by (simp add: put_job_status_def)
next
  fix st j
  assume "parse_job_status (b_status body) = Some st \<and> find_job s i = Some j
         \<and> progress_param (b_progress body) = None"
  then show "put_job_status caller i body now s = (Inl UPDATE_JOB_STATUS_ERROR, s)"
    by (simp add: put_job_status_def)
next
  fix e
  assume "fst (put_job_status caller i body now s) = Inl e"
  then show "snd (put_job_status caller i body now s) = s"
    by (rule put_job_status_failure)
qed

theorem put_job_status_any_transition_witness:
  "find_job store0 J3 = Some job3 \<and> j_status job3 = Completed
   \<and> (\<exists>j'. fst (put_job_status alice J3 (status_only ''queued'') 9 store0) = Inr j'
          \<and> j_status j' = Queued
          \<and> find_job (snd (put_job_status alice J3 (status_only ''queued'') 9 store0)) J3
              = Some j')
   \<and> put_job_status alice J3 (status_only ''paused'') 9 store0 = (Inl INVALID_STATUS, store0)
   \<and> put_job_status alice J9 (status_only ''queued'') 9 store0 = (Inl JOB_NOT_FOUND, store0)
   \<and> put_job_status alice J1 (progress_report (Num (101 / 2))) 9 store0
       = (Inl UPDATE_JOB_STATUS_ERROR, store0)
   \<and> put_job_status alice J1 (progress_report NotANumber) 9 store0
       = (Inl UPDATE_JOB_STATUS_ERROR, store0)"
proof -
  have a: "parse_job_status (b_status (status_only ''queued'')) = Some Queued"
    "parse_job_status (b_status (status_only ''paused'')) = None"
    "parse_job_status (b_status (progress_report (Num (101 / 2)))) = Some InProgress"
    "parse_job_status (b_status (progress_report NotANumber)) = Some InProgress"
    by (simp_all add: status_only_def progress_report_def)
  have b: "find_job store0 J3 = Some job3" "find_job store0 J1 = Some job1"
    "find_job store0 J9 = None"
    by (simp_all add: find_job_def example_defs)
  have d: "j_status job3 = Completed"
    by (simp add: example_defs)
  have p: "progress_param (b_progress (status_only ''queued'')) = Some None"
    "b_error_message (status_only ''queued'') = None"
    "b_result_data (status_only ''queued'') = None"
    "progress_param (b_progress (progress_report NotANumber)) = None"
    by (simp_all add: status_only_def progress_report_def progress_param_def)
  have "integer_column (clamp_progress (Num (101 / 2))) = None"
    by code_simp
  then have p2: "progress_param (b_progress (progress_report (Num (101 / 2)))) = None"
    by (simp add: progress_report_def progress_param_def)
  from put_job_status_any_transition [of "status_only ''queued''" store0 J3 alice 9] a b p
  have e: "\<exists>j'. fst (put_job_status alice J3 (status_only ''queued'') 9 store0) = Inr j'
          \<and> j_status j' = Queued
          \<and> find_job (snd (put_job_status alice J3 (status_only ''queued'') 9 store0)) J3
              = Some j'"
    by blast
  from put_job_status_any_transition [of "status_only ''paused''" store0 J3 alice 9] a
  have f: "put_job_status alice J3 (status_only ''paused'') 9 store0 = (Inl INVALID_STATUS, store0)"
    by blast
  from put_job_status_any_transition [of "status_only ''queued''" store0 J9 alice 9] a b
  have g: "put_job_status alice J9 (status_only ''queued'') 9 store0 = (Inl JOB_NOT_FOUND, store0)"
    by blast
  from put_job_status_any_transition [of "progress_report (Num (101 / 2))" store0 J1 alice 9]
    a b p2
  have h: "put_job_status alice J1 (progress_report (Num (101 / 2))) 9 store0
       = (Inl UPDATE_JOB_STATUS_ERROR, store0)"
    by blast
  from put_job_status_any_transition [of "progress_report NotANumber" store0 J1 alice 9] a b p
  have k: "put_job_status alice J1 (progress_report NotANumber) 9 store0
       = (Inl UPDATE_JOB_STATUS_ERROR, store0)"
    by blast
  from b d e f g h k show ?thesis by blast
qed

text \<open>
  C2: a terminal outcome changes the parent video's status only for an encoding job.
  The handler tests the job type when the new status is \<open>completed\<close> but not when it is
  \<open>failed\<close>. On \<open>store0\<close> the job \<open>J2\<close> is a thumbnail job of the pending video \<open>V1\<close>;
  reporting it completed leaves the status of \<open>V1\<close> pending, reporting it failed sets
  the status of \<open>V1\<close> to failed.
\<close>

theorem put_job_status_thumbnail_failed:
  "find_job store0 J2 = Some job2 \<and> j_type job2 = Thumbnail \<and> j_video_id job2 = V1
   \<and> map_option v_status (find_video store0 V1) = Some Pending
   \<and> map_option v_status
        (find_video (snd (put_job_status root J2 (status_only ''completed'') 9 store0)) V1)
       = Some Pending
   \<and> map_option v_status
        (find_video (snd (put_job_status root J2 (status_only ''failed'') 9 store0)) V1)
       = Some VFailed"
  by (simp add: find_job_def find_video_def put_job_status_def progress_param_def
      update_job_row_def set_video_status_def example_defs)

text \<open>
  C3: a terminal status is accepted only from an admin or a worker identity, and from
  the owner for \<open>cancelled\<close> alone. The handler never reads \<open>req.user\<close>. On \<open>store0\<close>
  the job \<open>J2\<close> belongs to a video of \<open>U1\<close>; the plain user \<open>U2\<close> reports it completed
  and the plain owner \<open>U1\<close> reports it failed, and both requests are answered with the
  updated row.
\<close>

theorem put_job_status_by_stranger:
  "find_job store0 J2 = Some job2 \<and> job_owner store0 job2 = Some U1
   \<and> user_id bob = U2 \<and> user_role bob = User
   \<and> fst (put_job_status bob J2 (status_only ''completed'') 9 store0)
       = Inr (job2\<lparr>j_status := Completed, j_updated_at := 9, completed_at := Some 9\<rparr>)
   \<and> job_status_in J2 (snd (put_job_status bob J2 (status_only ''completed'') 9 store0))
       = Some Completed
   \<and> fst (put_job_status alice J2 (status_only ''failed'') 9 store0)
       = Inr (job2\<lparr>j_status := Failed, j_updated_at := 9\<rparr>)"
  by (simp add: find_job_def find_video_def job_owner_def job_status_in_def put_job_status_def
      progress_param_def update_job_row_def set_video_status_def example_defs)

text \<open>
  C5: after a successful status update that supplies a progress value, the stored
  progress lies in 0..100: a value below 0 is stored as 0, a value above 100 as 100, a
  value in between as it is. Without a progress value the stored progress is the one
  the row had before.
\<close>

theorem put_job_status_progress:
  assumes "put_job_status caller i body now s = (Inr j', s')"
  shows "find_job s' i = Some j'
    \<and> (\<forall>pv. b_progress body = Some pv \<longrightarrow> 0 \<le> progress j' \<and> progress j' \<le> 100)
    \<and> (\<forall>q. b_progress body = Some (Num q) \<longrightarrow>
          (q < 0 \<longrightarrow> progress j' = 0)
          \<and> (100 < q \<longrightarrow> progress j' = 100)
          \<and> (0 \<le> q \<and> q \<le> 100 \<longrightarrow> of_int (progress j') = q))
    \<and> (\<forall>p. b_progress body = Some (Num (of_int p)) \<longrightarrow>
          0 \<le> progress j' \<and> progress j' \<le> 100
          \<and> (p < 0 \<longrightarrow> progress j' = 0)
          \<and> (100 < p \<longrightarrow> progress j' = 100)
          \<and> (0 \<le> p \<and> p \<le> 100 \<longrightarrow> progress j' = p))
    \<and> (b_progress body = None \<longrightarrow> map_option progress (find_job s i) = Some (progress j'))"
proof -
  from assms obtain st j pr where h: "parse_job_status (b_status body) = Some st"
    "find_job s i = Some j" "progress_param (b_progress body) = Some pr"
    "j' = update_job_row st pr body now j"
    by (rule put_job_status_Inr)
  have stored: "integer_column (clamp_progress pv) = Some (progress j')"
    if "b_progress body = Some pv" for pv
    using that h(3,4) by (auto simp: progress_param_def update_job_row_def)
  have "find_job s' i = Some j'"
    using put_job_status_success(2) [OF h(1,2,3), of caller now] assms h(4) by simp
  moreover have "\<forall>pv. b_progress body = Some pv \<longrightarrow> 0 \<le> progress j' \<and> progress j' \<le> 100"
    using stored stored_progress_range by blast
  moreover have "\<forall>q. b_progress body = Some (Num q) \<longrightarrow>
          (q < 0 \<longrightarrow> progress j' = 0)
          \<and> (100 < q \<longrightarrow> progress j' = 100)
          \<and> (0 \<le> q \<and> q \<le> 100 \<longrightarrow> of_int (progress j') = q)"
    using stored stored_progress_Num by blast
  moreover have "\<forall>p. b_progress body = Some (Num (of_int p)) \<longrightarrow>
          0 \<le> progress j' \<and> progress j' \<le> 100
          \<and> (p < 0 \<longrightarrow> progress j' = 0)
          \<and> (100 < p \<longrightarrow> progress j' = 100)
          \<and> (0 \<le> p \<and> p \<le> 100 \<longrightarrow> progress j' = p)"
  proof (intro allI impI)
    fix p :: int
    assume "b_progress body = Some (Num (of_int p))"
    then have "integer_column (clamp_progress (Num (of_int p))) = Some (progress j')"
      by (rule stored)
    then have "progress j' = max 0 (min 100 p)"
      by (simp only: stored_progress_of_int option.inject)
    then show "0 \<le> progress j' \<and> progress j' \<le> 100
          \<and> (p < 0 \<longrightarrow> progress j' = 0)
          \<and> (100 < p \<longrightarrow> progress j' = 100)
          \<and> (0 \<le> p \<and> p \<le> 100 \<longrightarrow> progress j' = p)"
      by auto
  qed
  moreover have "b_progress body = None \<longrightarrow>
      map_option progress (find_job s i) = Some (progress j')"
    using h by (auto simp: progress_param_def update_job_row_def)
  ultimately show ?thesis by blast
qed

theorem put_job_status_progress_witness:
  "put_job_status root J1 (progress_request 250) 9 store0
     = (Inr (job1\<lparr>j_status := InProgress, j_updated_at := 9, progress := 100\<rparr>),
        store0\<lparr>processing_jobs :=
                 [job1\<lparr>j_status := InProgress, j_updated_at := 9, progress := 100\<rparr>, job2, job3]\<rparr>)
   \<and> map_option progress
        (find_job (snd (put_job_status root J1 (progress_request 250) 9 store0)) J1)
       = Some 100
   \<and> map_option progress
        (find_job (snd (put_job_status root J1 (progress_request (- 3)) 9 store0)) J1)
       = Some 0
   \<and> map_option progress
        (find_job (snd (put_job_status root J2 (status_only ''in_progress'') 9 store0)) J2)
       = Some 40"
proof -
  have pp: "\<And>n. progress_param (b_progress (progress_request n)) = Some (Some (max 0 (min 100 n)))"
    by (simp add: progress_request_def progress_report_def progress_param_def
        stored_progress_of_int del: integer_column.simps clamp_progress.simps)
  have ps: "b_status (progress_request 250) = ''in_progress''"
    "b_status (progress_request (- 3)) = ''in_progress''"
    "b_error_message (progress_request 250) = None"
    "b_error_message (progress_request (- 3)) = None"
    "b_result_data (progress_request 250) = None"
    "b_result_data (progress_request (- 3)) = None"
    by (simp_all add: progress_request_def progress_report_def)
  have a: "put_job_status root J1 (progress_request 250) 9 store0
     = (Inr (job1\<lparr>j_status := InProgress, j_updated_at := 9, progress := 100\<rparr>),
        store0\<lparr>processing_jobs :=
                 [job1\<lparr>j_status := InProgress, j_updated_at := 9, progress := 100\<rparr>, job2, job3]\<rparr>)"
    by (simp add: put_job_status_def find_job_def update_job_row_def pp ps example_defs)
  have b: "put_job_status root J1 (progress_request (- 3)) 9 store0
     = (Inr (job1\<lparr>j_status := InProgress, j_updated_at := 9, progress := 0\<rparr>),
        store0\<lparr>processing_jobs :=
                 [job1\<lparr>j_status := InProgress, j_updated_at := 9, progress := 0\<rparr>, job2, job3]\<rparr>)"
    by (simp add: put_job_status_def find_job_def update_job_row_def pp ps example_defs)
  have c: "put_job_status root J2 (status_only ''in_progress'') 9 store0
     = (Inr (job2\<lparr>j_updated_at := 9\<rparr>),
        store0\<lparr>processing_jobs := [job1, job2\<lparr>j_updated_at := 9\<rparr>, job3]\<rparr>)"
    by (simp add: put_job_status_def find_job_def progress_param_def update_job_row_def
        example_defs)
  have pa: "b_progress (progress_request 250) = Some (Num (of_int 250))"
    and pb: "b_progress (progress_request (- 3)) = Some (Num (of_int (- 3)))"
    and pc: "b_progress (status_only ''in_progress'') = None"
    by (simp_all add: progress_request_def progress_report_def status_only_def)
  have j2: "map_option progress (find_job store0 J2) = Some 40"
    by (simp add: find_job_def example_defs)
  from put_job_status_progress [OF a] pa
  have "map_option progress
        (find_job (snd (put_job_status root J1 (progress_request 250) 9 store0)) J1)
       = Some 100"
    by (simp add: a)
  moreover from put_job_status_progress [OF b] pb
  have "map_option progress
        (find_job (snd (put_job_status root J1 (progress_request (- 3)) 9 store0)) J1)
       = Some 0"
    by (simp add: b)
  moreover from put_job_status_progress [OF c] pc j2
  have "map_option progress
        (find_job (snd (put_job_status root J2 (status_only ''in_progress'') 9 store0)) J2)
       = Some 40"
    by (simp add: c)
  ultimately show ?thesis using a by blast
qed

section \<open>Job creation\<close>





section \<open>Cancellation\<close>

lemma post_job_cancel_success:
  assumes "find_job s i = Some j"
    and "job_owner s j = Some (user_id caller) \<or> user_role caller = Admin"
    and "j_status j = Queued \<or> j_status j = InProgress"
  shows "post_job_cancel caller i now s =
     (Inr (j\<lparr>j_status := Cancelled, j_updated_at := now\<rparr>),
      s\<lparr>processing_jobs :=
           map (\<lambda>r. if jid r = i then r\<lparr>j_status := Cancelled, j_updated_at := now\<rparr> else r)
               (processing_jobs s)\<rparr>)"
  using assms by (auto simp: post_job_cancel_def)

lemma find_job_after_cancel:
  "find_job (s\<lparr>processing_jobs :=
           map (\<lambda>r. if jid r = i then r\<lparr>j_status := Cancelled, j_updated_at := now\<rparr> else r)
               (processing_jobs s)\<rparr>) i'
   = (if i' = i then map_option (\<lambda>r. r\<lparr>j_status := Cancelled, j_updated_at := now\<rparr>) (find_job s i)
      else find_job s i')"
  by (simp add: find_job_def find_map_same find_map_other)

text \<open>
  C6: cancelling a job fails \<open>JOB_NOT_FOUND\<close> when the job is absent,
  \<open>NOT_AUTHORIZED\<close> when the caller is neither the owner of the job's video nor an admin,
  and \<open>CANNOT_CANCEL_JOB\<close> when the job's status is neither queued nor in_progress. A
  successful cancel sets the status to cancelled and \<open>updated_at\<close> to the current time,
  leaves every other column of the row, every other row and the queue as they were, and
  a second cancel of the same job fails \<open>CANNOT_CANCEL_JOB\<close>.
\<close>

theorem post_job_cancel_outcomes:
  "(find_job s i = None \<longrightarrow> post_job_cancel caller i now s = (Inl JOB_NOT_FOUND, s))
   \<and> (\<forall>j. find_job s i = Some j
          \<and> job_owner s j \<noteq> Some (user_id caller) \<and> user_role caller \<noteq> Admin \<longrightarrow>
          post_job_cancel caller i now s = (Inl NOT_AUTHORIZED, s))
   \<and> (\<forall>j. find_job s i = Some j
          \<and> (job_owner s j = Some (user_id caller) \<or> user_role caller = Admin)
          \<and> j_status j \<noteq> Queued \<and> j_status j \<noteq> InProgress \<longrightarrow>
          post_job_cancel caller i now s = (Inl CANNOT_CANCEL_JOB, s))
   \<and> (\<forall>j. find_job s i = Some j
          \<and> (job_owner s j = Some (user_id caller) \<or> user_role caller = Admin)
          \<and> (j_status j = Queued \<or> j_status j = InProgress) \<longrightarrow>
          (\<exists>s'. post_job_cancel caller i now s
                   = (Inr (j\<lparr>j_status := Cancelled, j_updated_at := now\<rparr>), s')
             \<and> find_job s' i = Some (j\<lparr>j_status := Cancelled, j_updated_at := now\<rparr>)
             \<and> (\<forall>i'. i' \<noteq> i \<longrightarrow> find_job s' i' = find_job s i')
             \<and> videos s' = videos s \<and> video_tags s' = video_tags s
             \<and> video_processing_queue s' = video_processing_queue s
             \<and> post_job_cancel caller i later s' = (Inl CANNOT_CANCEL_JOB, s')))"
proof (intro conjI allI impI)
  show "post_job_cancel caller i now s = (Inl JOB_NOT_FOUND, s)" if "find_job s i = None"
    using that by (simp add: post_job_cancel_def)
next
  fix j
  assume "find_job s i = Some j
          \<and> job_owner s j \<noteq> Some (user_id caller) \<and> user_role caller \<noteq> Admin"
  then show "post_job_cancel caller i now s = (Inl NOT_AUTHORIZED, s)"
    by (simp add: post_job_cancel_def)
next
  fix j
  assume "find_job s i = Some j
          \<and> (job_owner s j = Some (user_id caller) \<or> user_role caller = Admin)
          \<and> j_status j \<noteq> Queued \<and> j_status j \<noteq> InProgress"
  then show "post_job_cancel caller i now s = (Inl CANNOT_CANCEL_JOB, s)"
    by (cases "j_status j") (auto simp: post_job_cancel_def)
next
  fix j
  assume h: "find_job s i = Some j
          \<and> (job_owner s j = Some (user_id caller) \<or> user_role caller = Admin)
          \<and> (j_status j = Queued \<or> j_status j = InProgress)"
  let ?j = "j\<lparr>j_status := Cancelled, j_updated_at := now\<rparr>"
  let ?s = "s\<lparr>processing_jobs :=
           map (\<lambda>r. if jid r = i then r\<lparr>j_status := Cancelled, j_updated_at := now\<rparr> else r)
               (processing_jobs s)\<rparr>"
  have r: "post_job_cancel caller i now s = (Inr ?j, ?s)"
    using h by (intro post_job_cancel_success) simp_all
  have f: "find_job ?s i = Some ?j"
    using h by (simp add: find_job_after_cancel)
  have g: "\<forall>i'. i' \<noteq> i \<longrightarrow> find_job ?s i' = find_job s i'"
    by (simp add: find_job_after_cancel)
  have o: "job_owner ?s ?j = job_owner s j"
    by (simp add: job_owner_def find_video_def)
  have again: "post_job_cancel caller i later ?s = (Inl CANNOT_CANCEL_JOB, ?s)"
    using f o h by (auto simp: post_job_cancel_def)
  show "\<exists>s'. post_job_cancel caller i now s = (Inr ?j, s')
             \<and> find_job s' i = Some ?j
             \<and> (\<forall>i'. i' \<noteq> i \<longrightarrow> find_job s' i' = find_job s i')
             \<and> videos s' = videos s \<and> video_tags s' = video_tags s
             \<and> video_processing_queue s' = video_processing_queue s
             \<and> post_job_cancel caller i later s' = (Inl CANNOT_CANCEL_JOB, s')"
    apply (rule exI [of _ ?s])
    using r f g again by simp
qed

theorem post_job_cancel_outcomes_witness:
  "post_job_cancel alice J9 9 store0 = (Inl JOB_NOT_FOUND, store0)
   \<and> post_job_cancel bob J1 9 store0 = (Inl NOT_AUTHORIZED, store0)
   \<and> post_job_cancel alice J3 9 store0 = (Inl CANNOT_CANCEL_JOB, store0)
   \<and> (\<exists>s'. post_job_cancel alice J1 9 store0
              = (Inr (job1\<lparr>j_status := Cancelled, j_updated_at := 9\<rparr>), s')
         \<and> find_job s' J1 = Some (job1\<lparr>j_status := Cancelled, j_updated_at := 9\<rparr>)
         \<and> find_job s' J2 = Some job2
         \<and> post_job_cancel alice J1 10 s' = (Inl CANNOT_CANCEL_JOB, s'))"
proof -
  have f9: "find_job store0 J9 = None"
    and f1: "find_job store0 J1 = Some job1"
    and f2: "find_job store0 J2 = Some job2"
    and f3: "find_job store0 J3 = Some job3"
    by (simp_all add: find_job_def example_defs)
  have o: "job_owner store0 job1 = Some U1" "job_owner store0 job3 = Some U1"
    by (simp_all add: job_owner_def find_video_def example_defs)
  have u: "user_id alice = U1" "user_id bob = U2" "user_role bob = User"
    by (simp_all add: example_defs)
  have st: "j_status job1 = Queued" "j_status job3 = Completed"
    by (simp_all add: example_defs)
  from post_job_cancel_outcomes [of store0 "J9" alice 9 10] f9
  have a: "post_job_cancel alice J9 9 store0 = (Inl JOB_NOT_FOUND, store0)"
    by blast
  from post_job_cancel_outcomes [of store0 "J1" bob 9 10] f1 o u
  have b: "post_job_cancel bob J1 9 store0 = (Inl NOT_AUTHORIZED, store0)"
    by simp
  from post_job_cancel_outcomes [of store0 "J3" alice 9 10] f3 o u st
  have c: "post_job_cancel alice J3 9 store0 = (Inl CANNOT_CANCEL_JOB, store0)"
    by simp
  from post_job_cancel_outcomes [of store0 "J1" alice 9 10] f1 o u st
  have d: "\<exists>s'. post_job_cancel alice J1 9 store0
              = (Inr (job1\<lparr>j_status := Cancelled, j_updated_at := 9\<rparr>), s')
         \<and> find_job s' J1 = Some (job1\<lparr>j_status := Cancelled, j_updated_at := 9\<rparr>)
         \<and> (\<forall>i'. i' \<noteq> J1 \<longrightarrow> find_job s' i' = find_job store0 i')
         \<and> post_job_cancel alice J1 10 s' = (Inl CANNOT_CANCEL_JOB, s')"
    by simp blast
  then obtain s' where s': "post_job_cancel alice J1 9 store0
              = (Inr (job1\<lparr>j_status := Cancelled, j_updated_at := 9\<rparr>), s')"
         "find_job s' J1 = Some (job1\<lparr>j_status := Cancelled, j_updated_at := 9\<rparr>)"
         "\<forall>i'. i' \<noteq> J1 \<longrightarrow> find_job s' i' = find_job store0 i'"
         "post_job_cancel alice J1 10 s' = (Inl CANNOT_CANCEL_JOB, s')"
    by blast
  from s'(3) f2 have "find_job s' J2 = Some job2" by simp
  with s' a b c show ?thesis by blast
qed

section \<open>Metadata update\<close>

lemma vid_apply_patch [simp]: "vid (apply_patch vp clock v) = vid v"
  by (simp add: apply_patch_def)

lemma validate_videoUpdate_Inr:
  assumes "validate_videoUpdate body = Inr vp"
  shows "vp_status vp = (case p_status body of None \<Rightarrow> None | Some t \<Rightarrow> parse_video_status t)"
    and "vp_tags vp = p_tags body"
    and "vp_title vp = p_title body"
    and "vp_description vp = p_description body"
  using assms
  by (auto simp: validate_videoUpdate_def check_status_def check_privacy_def
      split: if_splits option.splits Option.bind_splits)

lemma validate_videoUpdate_bad_status:
  assumes "p_status body = Some t" and "parse_video_status t = None"
  shows "validate_videoUpdate body = Inl VALIDATION_ERROR"
  using assms
  by (auto simp: validate_videoUpdate_def check_status_def split: option.splits Option.bind_splits)

lemma find_video_after_put:
  "find_video (s\<lparr>videos := map (\<lambda>r. if vid r = i then apply_patch vp clock r else r) (videos s)\<rparr>) i
   = map_option (apply_patch vp clock) (find_video s i)"
  by (simp add: find_video_def find_map_same)

lemma put_video_Inr:
  assumes "put_video caller i body clock s = (Inr v', s')"
  obtains vp v where "validate_videoUpdate body = Inr vp" "find_video s i = Some v"
    "v' = apply_patch vp clock v"
    "s' = s\<lparr>videos := map (\<lambda>r. if vid r = i then apply_patch vp clock r else r) (videos s)\<rparr>"
  using assms
  by (auto simp: put_video_def split: sum.splits option.splits if_splits)

lemma put_video_failure:
  assumes "fst (put_video caller i body clock s) = Inl e"
  shows "snd (put_video caller i body clock s) = s"
  using assms
  by (auto simp: put_video_def split: sum.splits option.splits if_splits)

text \<open>
  C7, as the specification states it: a metadata update that sets \<open>status\<close> is rejected,
  so no metadata update changes the status of a video. \<open>schemas.videoUpdate\<close> lists
  \<open>status\<close> among the keys it accepts and the handler writes every key of the body. On
  \<open>store0\<close> the owner of the pending video \<open>V1\<close> sends the status \<open>completed\<close>; the
  answer is the updated row and the stored status is completed.
\<close>

theorem put_video_pending_to_completed:
  "find_video store0 V1 = Some video1 \<and> v_status video1 = Pending
   \<and> v_user_id video1 = user_id alice
   \<and> fst (put_video alice V1 (status_patch ''completed'') 9 store0)
       = Inr (video1\<lparr>v_status := VCompleted, v_updated_at := 9\<rparr>)
   \<and> map_option v_status
        (find_video (snd (put_video alice V1 (status_patch ''completed'') 9 store0)) V1)
       = Some VCompleted"
  by (simp add: put_video_def validate_videoUpdate_def valid_description_def valid_tags_def
      check_privacy_def check_status_def apply_patch_def find_video_def status_patch_def
      example_defs)

text \<open>
  C7, amended: for a metadata update of an existing video by its owner or an admin, a
  body that passes the schema and sets \<open>status\<close> to one of pending, processing,
  completed, failed, alone or together with \<open>privacy\<close>, is accepted and the stored
  status becomes that value; whenever an update that carries a \<open>status\<close> key succeeds,
  the stored status is the value of that key. A body that passes the schema and carries
  a \<open>tags\<close> key is answered \<open>UPDATE_ERROR\<close> and changes nothing, whatever its other
  keys; a body whose \<open>status\<close> is any other string fails \<open>VALIDATION_ERROR\<close> and changes
  nothing; a body without a \<open>status\<close> key leaves the stored status as it was.
\<close>

theorem put_video_status:
  assumes "find_video s i = Some v"
    and "v_user_id v = user_id caller \<or> user_role caller = Admin"
  shows "(\<forall>vp t st. validate_videoUpdate body = Inr vp \<and> p_status body = Some t
            \<and> parse_video_status t = Some st
            \<and> p_tags body = None \<and> p_title body = None \<and> p_description body = None \<longrightarrow>
            (\<exists>v'. fst (put_video caller i body clock s) = Inr v' \<and> v_status v' = st
               \<and> find_video (snd (put_video caller i body clock s)) i = Some v'))
    \<and> (\<forall>v' s' t. put_video caller i body clock s = (Inr v', s') \<and> p_status body = Some t \<longrightarrow>
            parse_video_status t = Some (v_status v') \<and> find_video s' i = Some v')
    \<and> (\<forall>vp. validate_videoUpdate body = Inr vp \<and> p_tags body \<noteq> None \<longrightarrow>
            put_video caller i body clock s = (Inl UPDATE_ERROR, s))
    \<and> (\<forall>t. p_status body = Some t \<and> parse_video_status t = None \<longrightarrow>
            put_video caller i body clock s = (Inl VALIDATION_ERROR, s))
    \<and> (p_status body = None \<longrightarrow>
            map_option v_status (find_video (snd (put_video caller i body clock s)) i)
              = Some (v_status v))"
proof (intro conjI allI impI)
  fix vp t st
  assume h: "validate_videoUpdate body = Inr vp \<and> p_status body = Some t
            \<and> parse_video_status t = Some st
            \<and> p_tags body = None \<and> p_title body = None \<and> p_description body = None"
  then have st: "vp_status vp = Some st" and tg: "vp_tags vp = None"
    using validate_videoUpdate_Inr(1,2) [of body vp] by simp_all
  then have r: "put_video caller i body clock s
      = (Inr (apply_patch vp clock v),
         s\<lparr>videos := map (\<lambda>r. if vid r = i then apply_patch vp clock r else r) (videos s)\<rparr>)"
    using assms h by (auto simp: put_video_def)
  have "v_status (apply_patch vp clock v) = st"
    using st by (simp add: apply_patch_def)
  then show "\<exists>v'. fst (put_video caller i body clock s) = Inr v' \<and> v_status v' = st
               \<and> find_video (snd (put_video caller i body clock s)) i = Some v'"
    using r assms(1) by (simp add: find_video_after_put)
next
  fix v' s' t
  assume h: "put_video caller i body clock s = (Inr v', s') \<and> p_status body = Some t"
  then obtain vp w where k: "validate_videoUpdate body = Inr vp" "find_video s i = Some w"
    "v' = apply_patch vp clock w"
    "s' = s\<lparr>videos := map (\<lambda>r. if vid r = i then apply_patch vp clock r else r) (videos s)\<rparr>"
    using put_video_Inr by blast
  have "vp_status vp = parse_video_status t"
    using validate_videoUpdate_Inr(1) [OF k(1)] h by simp
  moreover have "parse_video_status t \<noteq> None"
  proof
    assume "parse_video_status t = None"
    with h have "validate_videoUpdate body = Inl VALIDATION_ERROR"
      using validate_videoUpdate_bad_status by blast
    with k(1) show False by simp
  qed
  ultimately obtain st where st: "vp_status vp = Some st" "parse_video_status t = Some st"
    by (cases "parse_video_status t") (simp_all del: parse_video_status.simps)
  then show "parse_video_status t = Some (v_status v')"
    by (simp add: k(3) apply_patch_def del: parse_video_status.simps)
  show "find_video s' i = Some v'"
    using k by (simp add: find_video_after_put)
next
  fix vp
  assume h: "validate_videoUpdate body = Inr vp \<and> p_tags body \<noteq> None"
  then have "vp_tags vp \<noteq> None"
    using validate_videoUpdate_Inr(2) [of body vp] by simp
  then show "put_video caller i body clock s = (Inl UPDATE_ERROR, s)"
    using assms h by (auto simp: put_video_def)
next
  fix t
  assume "p_status body = Some t \<and> parse_video_status t = None"
  then have "validate_videoUpdate body = Inl VALIDATION_ERROR"
    using validate_videoUpdate_bad_status by blast
  then show "put_video caller i body clock s = (Inl VALIDATION_ERROR, s)"
    by (simp add: put_video_def)
next
  assume n: "p_status body = None"
  show "map_option v_status (find_video (snd (put_video caller i body clock s)) i)
              = Some (v_status v)"
  proof (cases "fst (put_video caller i body clock s)")
    case (Inl e)
    then have "snd (put_video caller i body clock s) = s"
      by (rule put_video_failure)
    then show ?thesis using assms(1) by simp
  next
    case (Inr v')
    then have "put_video caller i body clock s = (Inr v', snd (put_video caller i body clock s))"
      by (simp add: prod_eq_iff)
    then obtain vp w where k: "validate_videoUpdate body = Inr vp" "find_video s i = Some w"
      "snd (put_video caller i body clock s)
         = s\<lparr>videos := map (\<lambda>r. if vid r = i then apply_patch vp clock r else r) (videos s)\<rparr>"
      using put_video_Inr by blast
    have "vp_status vp = None"
      using validate_videoUpdate_Inr(1) [OF k(1)] n by simp
    then have "v_status (apply_patch vp clock v) = v_status v"
      by (simp add: apply_patch_def)
    then show ?thesis
      using k(3) assms(1) by (simp add: find_video_after_put)
  qed
qed

theorem put_video_status_witness:
  "find_video store0 V2 = Some video2 \<and> v_status video2 = Pending
   \<and> (\<exists>v'. fst (put_video root V2 (status_patch ''failed'') 9 store0) = Inr v'
         \<and> v_status v' = VFailed
         \<and> find_video (snd (put_video root V2 (status_patch ''failed'') 9 store0)) V2
             = Some v')
   \<and> put_video root V2 (status_tags_patch ''failed'' [''diary'']) 9 store0
       = (Inl UPDATE_ERROR, store0)
   \<and> put_video root V2 (status_patch ''deleted'') 9 store0 = (Inl VALIDATION_ERROR, store0)
   \<and> map_option v_status
        (find_video (snd (put_video root V2 (title_patch ''Journal'') 9 store0)) V2)
       = Some Pending"
proof -
  have f: "find_video store0 V2 = Some video2"
    by (simp add: find_video_def example_defs)
  have a: "v_user_id video2 = user_id root \<or> user_role root = Admin"
    by (simp add: example_defs)
  have st: "v_status video2 = Pending"
    by (simp add: example_defs)
  have v: "validate_videoUpdate (status_patch ''failed'')
      = Inr \<lparr>vp_title = None, vp_description = None, vp_tags = None, vp_privacy = None,
             vp_status = Some VFailed\<rparr>"
    by (simp add: validate_videoUpdate_def valid_description_def valid_tags_def
        check_privacy_def check_status_def status_patch_def)
  have vt: "validate_videoUpdate (status_tags_patch ''failed'' [''diary''])
      = Inr \<lparr>vp_title = None, vp_description = None, vp_tags = Some [''diary''],
             vp_privacy = None, vp_status = Some VFailed\<rparr>"
    by (simp add: validate_videoUpdate_def valid_description_def valid_tags_def
        check_privacy_def check_status_def status_tags_patch_def)
  have p: "p_status (status_patch ''failed'') = Some ''failed''"
    "parse_video_status ''failed'' = Some VFailed"
    "p_tags (status_patch ''failed'') = None"
    "p_title (status_patch ''failed'') = None"
    "p_description (status_patch ''failed'') = None"
    "p_tags (status_tags_patch ''failed'' [''diary'']) \<noteq> None"
    "p_status (status_patch ''deleted'') = Some ''deleted''"
    "parse_video_status ''deleted'' = None"
    "p_status (title_patch ''Journal'') = None"
    by (simp_all add: status_patch_def status_tags_patch_def title_patch_def)
  from put_video_status [OF f a, of "status_patch ''failed''" 9] v p
  have x: "\<exists>v'. fst (put_video root V2 (status_patch ''failed'') 9 store0) = Inr v'
         \<and> v_status v' = VFailed
         \<and> find_video (snd (put_video root V2 (status_patch ''failed'') 9 store0)) V2
             = Some v'"
    by blast
  from put_video_status [OF f a, of "status_tags_patch ''failed'' [''diary'']" 9] vt p
  have w: "put_video root V2 (status_tags_patch ''failed'' [''diary'']) 9 store0
       = (Inl UPDATE_ERROR, store0)"
    by blast
  from put_video_status [OF f a, of "status_patch ''deleted''" 9] p
  have y: "put_video root V2 (status_patch ''deleted'') 9 store0 = (Inl VALIDATION_ERROR, store0)"
    by blast
  from put_video_status [OF f a, of "title_patch ''Journal''" 9] p st
  have z: "map_option v_status
        (find_video (snd (put_video root V2 (title_patch ''Journal'') 9 store0)) V2)
       = Some Pending"
    by simp
  from f st x w y z show ?thesis by blast
qed

section \<open>Deletion\<close>

text \<open>
  C8, as the specification states it: a successful delete moves the video's non-terminal
  jobs to cancelled before the video row is removed. The handler deletes the job rows.
  On \<open>store0\<close> the job \<open>J1\<close> of the video \<open>V1\<close> is queued; in the stores after the
  three statements of the delete its status is queued, then the row is gone while the
  video row is still there, and it is never cancelled.
\<close>

theorem delete_video_drops_queued_job:
  "find_job store0 J1 = Some job1 \<and> j_video_id job1 = V1 \<and> j_status job1 = Queued
   \<and> fst (delete_video alice V1 store0) = Inr ()
   \<and> map (has_video V1) (delete_steps V1 store0) = [True, True, False]
   \<and> map (job_status_in J1) (delete_steps V1 store0) = [Some Queued, None, None]
   \<and> job_status_in J1 (snd (delete_video alice V1 store0)) = None"
  by (simp add: delete_video_def delete_steps_def delete_video_tags_def
      delete_processing_jobs_def delete_video_row_def has_video_def job_status_in_def
      find_job_def find_video_def example_defs)

lemma find_filter_None: "find (\<lambda>x. key x = i) (filter (\<lambda>x. key x \<noteq> i) xs) = None"
  by (induction xs) auto

lemma delete_steps_last:
  "last (delete_steps i s)
   = s\<lparr>video_tags := filter (\<lambda>r. fst r \<noteq> i) (video_tags s),
       processing_jobs := filter (\<lambda>j. j_video_id j \<noteq> i) (processing_jobs s),
       videos := filter (\<lambda>v. vid v \<noteq> i) (videos s)\<rparr>"
  by (simp add: delete_steps_def Let_def delete_video_tags_def delete_processing_jobs_def
      delete_video_row_def)

lemma delete_steps_jobs:
  "st \<in> set (delete_steps i s) \<Longrightarrow> set (processing_jobs st) \<subseteq> set (processing_jobs s)"
  by (auto simp: delete_steps_def Let_def delete_video_tags_def delete_processing_jobs_def
      delete_video_row_def)

lemma delete_video_Inr:
  assumes "fst (delete_video caller i s) = Inr u"
  shows "snd (delete_video caller i s) = last (delete_steps i s)"
    and "\<exists>v. find_video s i = Some v \<and> (v_user_id v = user_id caller \<or> user_role caller = Admin)"
  using assms by (auto simp: delete_video_def split: option.splits if_splits)

text \<open>
  C8, amended: a successful delete (which only the owner or an admin obtains) removes
  every job row that references the video, whatever its status, and then the video row;
  no job row is rewritten on the way (every row of every intermediate store is a row of
  the store before the delete), the job rows of other videos are kept, and afterwards no
  job row references the deleted video.
\<close>

theorem delete_video_removes_jobs:
  assumes "fst (delete_video caller i s) = Inr u"
  shows "jobs_of_video (snd (delete_video caller i s)) i = []
    \<and> find_video (snd (delete_video caller i s)) i = None
    \<and> processing_jobs (snd (delete_video caller i s))
        = filter (\<lambda>j. j_video_id j \<noteq> i) (processing_jobs s)
    \<and> (\<forall>st \<in> set (delete_steps i s). set (processing_jobs st) \<subseteq> set (processing_jobs s))
    \<and> (\<exists>v. find_video s i = Some v
          \<and> (v_user_id v = user_id caller \<or> user_role caller = Admin))"
proof -
  have s': "snd (delete_video caller i s) = last (delete_steps i s)"
    using assms by (rule delete_video_Inr(1))
  have "jobs_of_video (last (delete_steps i s)) i = []"
    by (simp add: delete_steps_last jobs_of_video_def filter_empty_conv)
  moreover have "find_video (last (delete_steps i s)) i = None"
    by (simp add: delete_steps_last find_video_def find_filter_None)
  moreover have "processing_jobs (last (delete_steps i s))
        = filter (\<lambda>j. j_video_id j \<noteq> i) (processing_jobs s)"
    by (simp add: delete_steps_last)
  moreover have "\<forall>st \<in> set (delete_steps i s). set (processing_jobs st) \<subseteq> set (processing_jobs s)"
    using delete_steps_jobs by blast
  moreover have "\<exists>v. find_video s i = Some v
          \<and> (v_user_id v = user_id caller \<or> user_role caller = Admin)"
    using assms by (rule delete_video_Inr(2))
  ultimately show ?thesis using s' by simp
qed

theorem delete_video_removes_jobs_witness:
  "fst (delete_video alice V1 store0) = Inr ()
   \<and> jobs_of_video store0 V1 = [job1, job2]
   \<and> jobs_of_video (snd (delete_video alice V1 store0)) V1 = []
   \<and> find_video (snd (delete_video alice V1 store0)) V1 = None
   \<and> processing_jobs (snd (delete_video alice V1 store0)) = [job3]"
proof -
  have a: "fst (delete_video alice V1 store0) = Inr ()"
    by (simp add: delete_video_def find_video_def example_defs)
  have b: "jobs_of_video store0 V1 = [job1, job2]"
    by (simp add: jobs_of_video_def example_defs)
  have c: "filter (\<lambda>j. j_video_id j \<noteq> V1) (processing_jobs store0) = [job3]"
    by (simp add: example_defs)
  from delete_video_removes_jobs [OF a] b c show ?thesis
    using a by simp
qed

section \<open>Listing\<close>

lemma validate_listQuery_limit:
  assumes "validate_listQuery q = Inr vq"
  shows "1 \<le> lq_limit vq \<and> lq_limit vq \<le> 100 \<and> 1 \<le> lq_page vq"
  using assms
  by (auto simp: validate_listQuery_def check_limit_def check_page_def
      split: option.splits if_splits Option.bind_splits)

lemma validate_listQuery_status:
  assumes "validate_listQuery q = Inr vq" and "q_status q = None"
  shows "lq_status vq = None"
  using assms
  by (auto simp: validate_listQuery_def check_status_def
      split: option.splits if_splits Option.bind_splits)

lemma validate_listQuery_big_limit:
  assumes "q_limit q = Some n" and "100 < n"
  shows "validate_listQuery q = Inl VALIDATION_ERROR"
  using assms
  by (auto simp: validate_listQuery_def check_limit_def
      split: option.splits if_splits Option.bind_splits)

lemma set_order_by [simp]: "set (order_by f ord rows) = set rows"
  by (cases f; cases ord) (simp_all add: order_by_def)

lemma get_videos_Inr:
  assumes "get_videos caller q s = Inr pg"
  obtains vq where "validate_listQuery q = Inr vq"
    and "pg_videos pg = take (nat (lq_limit vq)) (drop (nat ((lq_page vq - 1) * lq_limit vq))
           (order_by (lq_sort vq) (lq_order vq) (filter (where_clause caller vq) (videos s))))"
    and "per_page pg = lq_limit vq"
    and "total_count pg = int (length (filter (where_clause caller vq) (videos s)))"
  using assms by (auto simp: get_videos_def Let_def split: sum.splits if_splits)

lemma where_clause_role:
  "where_clause (map_option (\<lambda>u. u\<lparr>user_role := r\<rparr>) caller) vq = where_clause caller vq"
  by (cases caller) (auto simp: where_clause_def fun_eq_iff)

lemma get_videos_role:
  "get_videos (map_option (\<lambda>u. u\<lparr>user_role := r\<rparr>) caller) q s = get_videos caller q s"
  by (auto simp: get_videos_def where_clause_role Let_def split: sum.splits)

text \<open>
  C9, as the specification states it: a private or unlisted video is listed for its
  owner or an admin, so an admin sees the private videos of other users. The handler's
  \<open>WHERE\<close> clause compares \<open>user_id\<close> with the caller and never reads the caller's role.
  On \<open>store0\<close> the admin \<open>root\<close> lists the videos: the private video \<open>V2\<close> of \<open>U1\<close> is
  not in the answer.
\<close>

theorem get_videos_admin_no_private:
  "user_role root = Admin \<and> video2 \<in> set (videos store0) \<and> v_privacy video2 = Private
   \<and> get_videos (Some root) no_query store0
       = Inr \<lparr>pg_videos = [video3, video1], current_page = 1, total_pages = 1,
              total_count = 2, per_page = 20, has_next = False, has_prev = False\<rparr>
   \<and> video2 \<notin> set [video3, video1]"
  by (simp add: get_videos_def validate_listQuery_def check_page_def check_limit_def
      check_sort_def check_order_def check_status_def check_search_def where_clause_def
      order_by_def example_defs)

text \<open>
  C9, amended: every video of a listing answer is a row of the table that is public or
  owned by the caller; an unauthenticated caller gets public videos only; the caller's
  role does not change the answer, so an admin sees the private and unlisted videos of
  other users no more than a plain user does. Without a status filter the total count is
  the number of rows that are public or owned by the caller. The page size is between 1
  and 100, the page holds at most that many videos, and a request for a limit above 100
  fails \<open>VALIDATION_ERROR\<close>.
\<close>

theorem get_videos_scope:
  "(\<forall>pg. get_videos caller q s = Inr pg \<longrightarrow>
      (\<forall>v \<in> set (pg_videos pg). v \<in> set (videos s)
          \<and> (v_privacy v = Public \<or> (\<exists>u. caller = Some u \<and> v_user_id v = user_id u)))
      \<and> (caller = None \<longrightarrow> (\<forall>v \<in> set (pg_videos pg). v_privacy v = Public))
      \<and> 1 \<le> per_page pg \<and> per_page pg \<le> 100
      \<and> int (length (pg_videos pg)) \<le> per_page pg
      \<and> (q_status q = None \<longrightarrow>
           total_count pg
             = int (length (filter (\<lambda>v. v_privacy v = Public
                                       \<or> (\<exists>u. caller = Some u \<and> v_user_id v = user_id u))
                                   (videos s)))))
   \<and> (\<forall>n. q_limit q = Some n \<and> 100 < n \<longrightarrow> get_videos caller q s = Inl VALIDATION_ERROR)
   \<and> (\<forall>r. get_videos (map_option (\<lambda>u. u\<lparr>user_role := r\<rparr>) caller) q s = get_videos caller q s)"
proof (intro conjI allI impI ballI)
  fix pg v
  assume a: "get_videos caller q s = Inr pg" and v: "v \<in> set (pg_videos pg)"
  from a obtain vq where vq: "validate_listQuery q = Inr vq"
    and items: "pg_videos pg = take (nat (lq_limit vq)) (drop (nat ((lq_page vq - 1) * lq_limit vq))
           (order_by (lq_sort vq) (lq_order vq) (filter (where_clause caller vq) (videos s))))"
    by (rule get_videos_Inr)
  from v items have "v \<in> set (take (nat (lq_limit vq))
      (drop (nat ((lq_page vq - 1) * lq_limit vq))
        (order_by (lq_sort vq) (lq_order vq) (filter (where_clause caller vq) (videos s)))))"
    by simp
  then have "v \<in> set (drop (nat ((lq_page vq - 1) * lq_limit vq))
      (order_by (lq_sort vq) (lq_order vq) (filter (where_clause caller vq) (videos s))))"
    by (rule in_set_takeD)
  then have "v \<in> set (order_by (lq_sort vq) (lq_order vq)
      (filter (where_clause caller vq) (videos s)))"
    by (rule in_set_dropD)
  then have w: "v \<in> set (videos s) \<and> where_clause caller vq v" by simp
  then show "v \<in> set (videos s)" by simp
  from w show "v_privacy v = Public \<or> (\<exists>u. caller = Some u \<and> v_user_id v = user_id u)"
    by (cases caller) (auto simp: where_clause_def)
  show "v_privacy v = Public" if "caller = None"
    using w that by (simp add: where_clause_def)
next
  fix pg
  assume a: "get_videos caller q s = Inr pg"
  from a obtain vq where vq: "validate_listQuery q = Inr vq"
    and items: "pg_videos pg = take (nat (lq_limit vq)) (drop (nat ((lq_page vq - 1) * lq_limit vq))
           (order_by (lq_sort vq) (lq_order vq) (filter (where_clause caller vq) (videos s))))"
    and pp: "per_page pg = lq_limit vq"
    and tc: "total_count pg = int (length (filter (where_clause caller vq) (videos s)))"
    by (rule get_videos_Inr)
  have lim: "1 \<le> lq_limit vq \<and> lq_limit vq \<le> 100"
    using validate_listQuery_limit [OF vq] by simp
  show "1 \<le> per_page pg" and "per_page pg \<le> 100"
    using lim pp by simp_all
  have "length (pg_videos pg) \<le> nat (lq_limit vq)"
    by (simp add: items)
  then show "int (length (pg_videos pg)) \<le> per_page pg"
    using lim pp by linarith
  show "total_count pg
             = int (length (filter (\<lambda>v. v_privacy v = Public
                                       \<or> (\<exists>u. caller = Some u \<and> v_user_id v = user_id u))
                                   (videos s)))"
    if "q_status q = None"
  proof -
    have "lq_status vq = None"
      using validate_listQuery_status [OF vq that] .
    then have "where_clause caller vq = (\<lambda>v. v_privacy v = Public
                                       \<or> (\<exists>u. caller = Some u \<and> v_user_id v = user_id u))"
      by (cases caller) (auto simp: where_clause_def fun_eq_iff)
    then show ?thesis using tc by simp
  qed
next
  fix n
  assume "q_limit q = Some n \<and> 100 < n"
  then have "validate_listQuery q = Inl VALIDATION_ERROR"
    using validate_listQuery_big_limit by blast
  then show "get_videos caller q s = Inl VALIDATION_ERROR"
    by (simp add: get_videos_def)
next
  fix r
  show "get_videos (map_option (\<lambda>u. u\<lparr>user_role := r\<rparr>) caller) q s = get_videos caller q s"
    by (rule get_videos_role)
qed

theorem get_videos_scope_witness:
  "get_videos (Some alice) no_query store0
       = Inr \<lparr>pg_videos = [video3, video2, video1], current_page = 1, total_pages = 1,
              total_count = 3, per_page = 20, has_next = False, has_prev = False\<rparr>
   \<and> get_videos None no_query store0
       = Inr \<lparr>pg_videos = [video3, video1], current_page = 1, total_pages = 1,
              total_count = 2, per_page = 20, has_next = False, has_prev = False\<rparr>
   \<and> list_all (\<lambda>v. v_privacy v = Public) [video3, video1]
   \<and> list_all (\<lambda>v. v_privacy v = Public \<or> v_user_id v = U1) [video3, video2, video1]
   \<and> get_videos None (no_query\<lparr>q_limit := Some 101\<rparr>) store0 = Inl VALIDATION_ERROR
   \<and> get_videos (Some (alice\<lparr>user_role := Admin\<rparr>)) no_query store0
       = get_videos (Some alice) no_query store0"
proof -
  have a: "get_videos (Some alice) no_query store0
       = Inr \<lparr>pg_videos = [video3, video2, video1], current_page = 1, total_pages = 1,
              total_count = 3, per_page = 20, has_next = False, has_prev = False\<rparr>"
    by (simp add: get_videos_def validate_listQuery_def check_page_def check_limit_def
      check_sort_def check_order_def check_status_def check_search_def where_clause_def
      order_by_def example_defs)
  have b: "get_videos None no_query store0
       = Inr \<lparr>pg_videos = [video3, video1], current_page = 1, total_pages = 1,
              total_count = 2, per_page = 20, has_next = False, has_prev = False\<rparr>"
    by (simp add: get_videos_def validate_listQuery_def check_page_def check_limit_def
      check_sort_def check_order_def check_status_def check_search_def where_clause_def
      order_by_def example_defs)
  have l: "q_limit (no_query\<lparr>q_limit := Some 101\<rparr>) = Some 101" by simp
  from get_videos_scope [of "Some alice" no_query store0] a
  have c: "\<forall>v \<in> set [video3, video2, video1].
      v_privacy v = Public \<or> (\<exists>u. Some alice = Some u \<and> v_user_id v = user_id u)"
    by simp
  from get_videos_scope [of None no_query store0] b
  have d: "\<forall>v \<in> set [video3, video1]. v_privacy v = Public"
    by simp
  from get_videos_scope [of None "no_query\<lparr>q_limit := Some 101\<rparr>" store0] l
  have e: "get_videos None (no_query\<lparr>q_limit := Some 101\<rparr>) store0 = Inl VALIDATION_ERROR"
    by simp
  from get_videos_scope [of "Some alice" no_query store0]
  have f: "get_videos (map_option (\<lambda>u. u\<lparr>user_role := Admin\<rparr>) (Some alice)) no_query store0
       = get_videos (Some alice) no_query store0"
    by blast
  have u: "user_id alice = U1" by (simp add: alice_def)
  from c u have c': "list_all (\<lambda>v. v_privacy v = Public \<or> v_user_id v = U1) [video3, video2, video1]"
    by (simp add: list_all_iff)
  from d have d': "list_all (\<lambda>v. v_privacy v = Public) [video3, video1]"
    by (simp add: list_all_iff)
  from a b c' d' e f show ?thesis by simp
qed

section \<open>Upload\<close>

lemma videos_insert_tags [simp]: "videos (insert_tags i ts s) = videos s"
  by (simp add: insert_tags_def split: option.splits)

lemma processing_jobs_insert_tags [simp]: "processing_jobs (insert_tags i ts s) = processing_jobs s"
  by (simp add: insert_tags_def split: option.splits)

lemma queue_insert_tags [simp]:
  "video_processing_queue (insert_tags i ts s) = video_processing_queue s"
  by (simp add: insert_tags_def split: option.splits)

lemma find_job_insert_tags [simp]:
  "find_job (insert_tags i ts (insert_video v s)) k = find_job s k"
  by (simp add: find_job_def insert_video_def)

lemma post_video_Inr:
  assumes r: "post_video caller file body videoId jobId now clock redis_up s = (Inr (v, pj), s')"
  obtains f priv where "file = Some f"
    "find_video s videoId = None"
    "find_job s jobId = None"
    "redis_up"
    "pj = jobId"
    "v = new_video caller f body priv videoId now"
    "s' = lPush \<lparr>d_job_id = jobId, d_video_id = videoId,
                 d_job_type = MetadataExtraction, d_priority = 5,
                 d_settings = None, d_file_path = Some (f_path f),
                 d_created_at = clock\<rparr>
           (insert_job (new_job jobId videoId MetadataExtraction 5 None now)
             (insert_tags videoId (u_tags body) (insert_video v s)))"
proof -
  obtain priv where p: "validate_videoUpload body = Inr priv"
    using r by (cases "validate_videoUpload body") (simp_all add: post_video_def)
  obtain f where f: "file = Some f"
    using r p by (cases "file") (simp_all add: post_video_def)
  have fv: "find_video s videoId = None"
    using r p f by (simp add: post_video_def split: if_splits)
  have fj: "find_job s jobId = None"
    using r p f fv by (simp add: post_video_def Let_def split: if_splits)
  have "redis_up" "pj = jobId" "v = new_video caller f body priv videoId now"
    "s' = lPush \<lparr>d_job_id = jobId, d_video_id = videoId,
                 d_job_type = MetadataExtraction, d_priority = 5,
                 d_settings = None, d_file_path = Some (f_path f),
                 d_created_at = clock\<rparr>
           (insert_job (new_job jobId videoId MetadataExtraction 5 None now)
             (insert_tags videoId (u_tags body) (insert_video v s)))"
    using r p f fv fj by (auto simp: post_video_def Let_def split: if_splits)
  with f fv fj that show thesis by blast
qed

text \<open>
  C10: every successful upload stores the new video with status pending and, though the
  caller asked for no job, inserts exactly one job row against it, of type
  metadata_extraction, with status queued, priority 5 and progress 0, and pushes the
  matching descriptor (same job id, video id, job type and priority, with the path of
  the uploaded file) onto the head of the queue; the new video is not job-free.
\<close>

theorem post_video_initial_job:
  assumes "post_video caller file body videoId jobId now clock redis_up s = (Inr (v, pj), s')"
  shows "pj = jobId \<and> vid v = videoId \<and> v_user_id v = user_id caller \<and> v_status v = Pending
    \<and> find_video s' videoId = Some v
    \<and> (\<exists>j. processing_jobs s' = processing_jobs s @ [j]
          \<and> find_job s' jobId = Some j
          \<and> j \<in> set (jobs_of_video s' videoId)
          \<and> jid j = jobId \<and> j_video_id j = videoId \<and> j_type j = MetadataExtraction
          \<and> j_status j = Queued \<and> priority j = 5 \<and> progress j = 0)
    \<and> (\<exists>f. file = Some f
          \<and> video_processing_queue s'
              = \<lparr>d_job_id = jobId, d_video_id = videoId, d_job_type = MetadataExtraction,
                 d_priority = 5, d_settings = None, d_file_path = Some (f_path f),
                 d_created_at = clock\<rparr> # video_processing_queue s)"
proof -
  from assms obtain f priv where h: "file = Some f"
    "find_video s videoId = None"
    "find_job s jobId = None"
    "redis_up"
    "pj = jobId"
    "v = new_video caller f body priv videoId now"
    "s' = lPush \<lparr>d_job_id = jobId, d_video_id = videoId,
                 d_job_type = MetadataExtraction, d_priority = 5,
                 d_settings = None, d_file_path = Some (f_path f),
                 d_created_at = clock\<rparr>
           (insert_job (new_job jobId videoId MetadataExtraction 5 None now)
             (insert_tags videoId (u_tags body) (insert_video v s)))"
    by (rule post_video_Inr)
  let ?j = "new_job jobId videoId MetadataExtraction 5 None now"
  have v: "vid v = videoId \<and> v_user_id v = user_id caller \<and> v_status v = Pending"
    by (simp add: h(6) new_video_def)
  have fv: "find_video s' videoId = Some v"
    using h(2) v
    by (simp add: h(7) find_video_def lPush_def insert_job_def insert_video_def find_append_fresh)
  have pj: "processing_jobs s' = processing_jobs s @ [?j]"
    by (simp add: h(7) lPush_def insert_job_def insert_video_def)
  have fj: "find_job s' jobId = Some ?j"
    using h(3) by (simp add: find_job_def pj find_append_fresh new_job_def)
  have mem: "?j \<in> set (jobs_of_video s' videoId)"
    by (simp add: jobs_of_video_def pj new_job_def)
  have fields: "jid ?j = jobId \<and> j_video_id ?j = videoId \<and> j_type ?j = MetadataExtraction
          \<and> j_status ?j = Queued \<and> priority ?j = 5 \<and> progress ?j = 0"
    by (simp add: new_job_def)
  have q: "video_processing_queue s'
              = \<lparr>d_job_id = jobId, d_video_id = videoId, d_job_type = MetadataExtraction,
                 d_priority = 5, d_settings = None, d_file_path = Some (f_path f),
                 d_created_at = clock\<rparr> # video_processing_queue s"
    by (simp add: h(7) lPush_def insert_job_def insert_video_def)
  from h(1,5) v fv pj fj mem fields q show ?thesis by blast
qed

theorem post_video_initial_job_witness:
  "(\<exists>v s'. post_video alice (Some file1) upload1 V9 J9 8 9 True store0 = (Inr (v, J9), s')
      \<and> find_video s' V9 = Some v
      \<and> v_status v = Pending
      \<and> (\<exists>j. processing_jobs s' = [job1, job2, job3, j]
            \<and> j_video_id j = V9 \<and> j_type j = MetadataExtraction
            \<and> j_status j = Queued \<and> priority j = 5)
      \<and> video_processing_queue s'
          = [\<lparr>d_job_id = J9, d_video_id = V9, d_job_type = MetadataExtraction,
              d_priority = 5, d_settings = None, d_file_path = Some ''uploads/videos/d.mp4'',
              d_created_at = 9\<rparr>])"
proof -
  obtain v s' where r: "post_video alice (Some file1) upload1 V9 J9 8 9 True store0
      = (Inr (v, J9), s')"
    by (simp add: post_video_def validate_videoUpload_def valid_title_def valid_description_def
        valid_tags_def insert_tags_def insert_video_def new_video_def find_video_def find_job_def
        Let_def file1_def upload1_def
        example_defs)
  have p: "processing_jobs store0 = [job1, job2, job3]" "video_processing_queue store0 = []"
    by (simp_all add: store0_def)
  have fp: "f_path file1 = ''uploads/videos/d.mp4''" by (simp add: file1_def)
  from post_video_initial_job [OF r] obtain j where
    j: "find_video s' V9 = Some v" "v_status v = Pending"
      "processing_jobs s' = processing_jobs store0 @ [j]"
      "j_video_id j = V9" "j_type j = MetadataExtraction"
      "j_status j = Queued" "priority j = 5"
      "video_processing_queue s'
          = \<lparr>d_job_id = J9, d_video_id = V9, d_job_type = MetadataExtraction,
              d_priority = 5, d_settings = None, d_file_path = Some (f_path file1),
              d_created_at = 9\<rparr> # video_processing_queue store0"
    by auto
  from j(3) p(1) have pj: "processing_jobs s' = [job1, job2, job3, j]" by simp
  from j(8) p(2) fp have q: "video_processing_queue s'
          = [\<lparr>d_job_id = J9, d_video_id = V9, d_job_type = MetadataExtraction,
              d_priority = 5, d_settings = None, d_file_path = Some ''uploads/videos/d.mp4'',
              d_created_at = 9\<rparr>]" by simp
  from r j(1,2,4-7) pj q show ?thesis by blast
qed

end
